theory Spec2Isabelle
  imports Main
begin

section \<open>Errors and the Config value\<close>

text \<open>
  A Go \<open>error\<close> is modelled by its message; \<open>nil\<close> is \<open>None\<close>.
  \<open>fmt.Errorf("msg: %v", err)\<close> is the concatenation of the message and the cause.
\<close>

type_synonym error = string

text \<open>
  \<open>Config\<close> (service.go). The platform files call \<open>Config.Start()\<close> and
  \<open>Config.Stop()\<close>, two callbacks of type \<open>func() error\<close> whose declaration is not
  part of the struct shown in service.go; they are taken as fields. A callback is invoked
  at most once per run with no argument, so it is modelled by the error it returns;
  \<open>Stop = None\<close> is the nil function.
\<close>

record Config =
  Name :: string
  Privileged :: bool
  Program :: string
  Arguments :: "string list"
  WorkingDirectory :: string
  Start :: "error option"
  Stop :: "error option option"

definition errNameFieldRequired :: error where
  "errNameFieldRequired = ''Config.Name field is required.''"

section \<open>Windows backend: the control bridge\<close>

text \<open>
  The types of the winsvc \<open>svc\<close> package that \<open>Execute\<close> uses. \<open>svc.Status\<close> also has
  the counters \<open>CheckPoint\<close> and \<open>WaitHint\<close>, which this code never sets.
\<close>

datatype svc_State =
  svc_Stopped | svc_StartPending | svc_StopPending | svc_Running
  | svc_ContinuePending | svc_PausePending | svc_Paused

datatype svc_Cmd = svc_Stop | svc_Pause | svc_Continue | svc_Interrogate | svc_Shutdown

datatype svc_Accepted = svc_AcceptStop | svc_AcceptShutdown | svc_AcceptPauseAndContinue

record svc_Status =
  State :: svc_State
  Accepts :: "svc_Accepted set"

record svc_ChangeRequest =
  Cmd :: svc_Cmd
  CurrentStatus :: svc_Status

text \<open>
  \<open>windowsService\<close> embeds \<open>Config\<close>. The mutex \<open>errSync\<close> only serialises the accesses
  to \<open>stopStartErr\<close> and has no sequential content.
\<close>

record windowsService = Config +
  stopStartErr :: "error option"

definition windows_newService :: "Config \<Rightarrow> windowsService" where
  "windows_newService c =
     \<lparr>Name = Name c, Privileged = Privileged c, Program = Program c,
      Arguments = Arguments c, WorkingDirectory = WorkingDirectory c,
      Start = Start c, Stop = Stop c, stopStartErr = None\<rparr>"

definition setError :: "windowsService \<Rightarrow> error option \<Rightarrow> windowsService" where
  "setError ws err = ws\<lparr>stopStartErr := err\<rparr>"

definition getError :: "windowsService \<Rightarrow> error option" where
  "getError ws = stopStartErr ws"

definition cmdsAccepted :: "svc_Accepted set" where
  "cmdsAccepted = {svc_AcceptStop, svc_AcceptShutdown}"

text \<open>
  What a call of \<open>Execute\<close> leaves behind: the service object, the statuses sent on
  \<open>changes\<close> in order, and the pair \<open>(svcSpecificEC, exitCode)\<close> it returns. The request
  channel \<open>r\<close> is the list of requests the OS delivers; when the list is used up the
  receive \<open>c := <-r\<close> blocks for ever and \<open>Execute\<close> does not return
  (\<open>returned = None\<close>).
\<close>

record Execute_result =
  handler :: windowsService
  changes :: "svc_Status list"
  returned :: "(bool \<times> nat) option"

text \<open>The body of \<open>case svc.Stop, svc.Shutdown\<close>.\<close>

definition Execute_stop :: "windowsService \<Rightarrow> svc_Status list \<Rightarrow> Execute_result" where
  "Execute_stop ws ch =
     (let ch' = ch @ [\<lparr>State = svc_StopPending, Accepts = {}\<rparr>] in
      case Stop ws of
        None \<Rightarrow> \<lparr>handler = ws, changes = ch', returned = Some (False, 0)\<rparr>
      | Some None \<Rightarrow> \<lparr>handler = ws, changes = ch', returned = Some (False, 0)\<rparr>
      | Some (Some err) \<Rightarrow>
          \<lparr>handler = setError ws (Some err), changes = ch', returned = Some (True, 2)\<rparr>)"

text \<open>The \<open>for\<close> loop labelled \<open>loop\<close>.\<close>

fun Execute_loop ::
  "windowsService \<Rightarrow> svc_ChangeRequest list \<Rightarrow> svc_Status list \<Rightarrow> Execute_result" where
  "Execute_loop ws [] ch = \<lparr>handler = ws, changes = ch, returned = None\<rparr>"
| "Execute_loop ws (c # r) ch =
     (case Cmd c of
        svc_Interrogate \<Rightarrow> Execute_loop ws r (ch @ [CurrentStatus c])
      | svc_Stop \<Rightarrow> Execute_stop ws ch
      | svc_Shutdown \<Rightarrow> Execute_stop ws ch
      | svc_Pause \<Rightarrow> Execute_loop ws r ch
      | svc_Continue \<Rightarrow> Execute_loop ws r ch)"

definition Execute ::
  "windowsService \<Rightarrow> string list \<Rightarrow> svc_ChangeRequest list \<Rightarrow> Execute_result" where
  "Execute ws args r =
     (let ch = [\<lparr>State = svc_StartPending, Accepts = {}\<rparr>] in
      case Start ws of
        Some err \<Rightarrow> \<lparr>handler = setError ws (Some err), changes = ch, returned = Some (True, 1)\<rparr>
      | None \<Rightarrow> Execute_loop ws r (ch @ [\<lparr>State = svc_Running, Accepts = cmdsAccepted\<rparr>]))"

text \<open>
  \<open>svc.Run(name, handler)\<close> belongs to the winsvc library. It connects the process to the
  service control dispatcher; when that fails (\<open>dispatch_err\<close>) it returns the error and
  the handler is never called. Otherwise it calls \<open>handler.Execute\<close> once, passes every
  status sent on \<open>changes\<close> and finally the returned exit code on to the OS, and returns
  \<open>run_err\<close>. The requests delivered are \<open>requests\<close>.
\<close>

record svc_env =
  dispatch_err :: "error option"
  run_err :: "error option"
  requests :: "svc_ChangeRequest list"

text \<open>
  The outcome of \<open>Run\<close>: the service object, the statuses and the exit code reported to
  the OS, and what \<open>Run\<close> returns: \<open>None\<close> when it never returns, \<open>Some None\<close> for nil.
\<close>

record Run_result =
  service :: windowsService
  reported :: "svc_Status list"
  exit_code :: "(bool \<times> nat) option"
  Run_returned :: "error option option"

definition svc_Run :: "svc_env \<Rightarrow> string \<Rightarrow> windowsService \<Rightarrow> Run_result" where
  "svc_Run env name ws =
     (case dispatch_err env of
        Some e \<Rightarrow> \<lparr>service = ws, reported = [], exit_code = None, Run_returned = Some (Some e)\<rparr>
      | None \<Rightarrow>
          (let out = Execute ws [] (requests env) in
           \<lparr>service = handler out, reported = changes out, exit_code = returned out,
            Run_returned = (case returned out of None \<Rightarrow> None | Some c \<Rightarrow> Some (run_err env))\<rparr>))"

definition windowsService_Run :: "svc_env \<Rightarrow> windowsService \<Rightarrow> Run_result" where
  "windowsService_Run env ws =
     (let ws1 = setError ws None;
          out = svc_Run env (Name ws1) ws1
      in case Run_returned out of
           None \<Rightarrow> out
         | Some runErr \<Rightarrow>
             (case getError (service out) of
                Some startStopErr \<Rightarrow> out\<lparr>Run_returned := Some (Some startStopErr)\<rparr>
              | None \<Rightarrow>
                  (case runErr of
                     Some e \<Rightarrow> out\<lparr>Run_returned := Some (Some e)\<rparr>
                   | None \<Rightarrow> out\<lparr>Run_returned := Some None\<rparr>)))"

section \<open>Windows backend: the service manager\<close>

text \<open>
  \<open>mgr.Config\<close> of the winsvc library, with the fields \<open>buildConfig\<close> sets. Its
  declaration is not part of this repository; \<open>reflect.DeepEqual\<close> on two such records is
  their equality.
\<close>

record mgr_Config =
  DisplayName :: string
  Description :: string
  StartType :: nat
  ServiceStartName :: string

definition mgr_StartAutomatic :: nat where
  "mgr_StartAutomatic = 2"

text \<open>The zero value \<open>mgr.Config{}\<close>.\<close>

definition mgr_Config_zero :: mgr_Config where
  "mgr_Config_zero = \<lparr>DisplayName = [], Description = [], StartType = 0, ServiceStartName = []\<rparr>"

text \<open>
  The service control manager: the registered services by name, each with the command
  line and the configuration it was registered with, and the calls made to the manager,
  the event log and the clock, in order. A service handle is the name it was opened by.
\<close>

record registration =
  BinaryPathName :: string
  Cfg :: mgr_Config

datatype scm_call =
  mgr_Connect
  | Mgr_Disconnect
  | Mgr_OpenService string
  | Mgr_CreateService string string mgr_Config
  | Service_Config string
  | Service_UpdateConfig string mgr_Config
  | Service_Start string "string list"
  | Service_Control string svc_Cmd
  | Service_Delete string
  | Service_Close string
  | eventlog_Remove string
  | time_Sleep nat

record windows_world =
  services :: "string \<rightharpoonup> registration"
  calls :: "scm_call list"

text \<open>
  What the environment decides in one call of an operation: for every call site, the
  error with which the manager refuses the call (\<open>None\<close>: the manager carries it out),
  and the result of \<open>osext.Executable()\<close>.
\<close>

record windows_env =
  Connect_err :: "error option"
  OpenService_err :: "error option"
  Config_err :: "error option"
  Executable :: "error + string"
  CreateService_err :: "error option"
  doStart_OpenService_err :: "error option"
  Start_err :: "error option"
  UpdateConfig_err :: "error option"
  Control_err :: "error option"
  Delete_err :: "error option"
  eventlog_Remove_err :: "error option"

definition called :: "scm_call \<Rightarrow> windows_world \<Rightarrow> windows_world" where
  "called c w = w\<lparr>calls := calls w @ [c]\<rparr>"

definition Connect :: "windows_env \<Rightarrow> windows_world \<Rightarrow> error option \<times> windows_world" where
  "Connect env w = (Connect_err env, called mgr_Connect w)"

definition Disconnect :: "windows_world \<Rightarrow> windows_world" where
  "Disconnect w = called Mgr_Disconnect w"

text \<open>
  \<open>m.OpenService(name)\<close> fails when the manager refuses it (\<open>fault\<close>) or when no service
  of that name is registered.
\<close>

definition OpenService ::
  "error option \<Rightarrow> string \<Rightarrow> windows_world \<Rightarrow> (error + string) \<times> windows_world" where
  "OpenService fault name w =
     (let w' = called (Mgr_OpenService name) w in
      case fault of
        Some e \<Rightarrow> (Inl e, w')
      | None \<Rightarrow>
          (case services w name of
             None \<Rightarrow> (Inl ''The specified service does not exist as an installed service.'', w')
           | Some reg \<Rightarrow> (Inr name, w')))"

text \<open>
  \<open>m.CreateService(name, exepath, cfg)\<close> registers the service, unless the manager refuses
  it or the name is taken.
\<close>

definition CreateService ::
  "windows_env \<Rightarrow> string \<Rightarrow> string \<Rightarrow> mgr_Config \<Rightarrow> windows_world
     \<Rightarrow> (error + string) \<times> windows_world" where
  "CreateService env name binPath cfg w =
     (let w' = called (Mgr_CreateService name binPath cfg) w in
      case CreateService_err env of
        Some e \<Rightarrow> (Inl e, w')
      | None \<Rightarrow>
          (case services w name of
             Some reg \<Rightarrow> (Inl ''The specified service already exists.'', w')
           | None \<Rightarrow>
               (Inr name,
                w'\<lparr>services := (services w')(name \<mapsto> \<lparr>BinaryPathName = binPath, Cfg = cfg\<rparr>)\<rparr>)))"

definition Service_Config_of ::
  "windows_env \<Rightarrow> string \<Rightarrow> windows_world \<Rightarrow> (error + mgr_Config) \<times> windows_world" where
  "Service_Config_of env s w =
     (let w' = called (Service_Config s) w in
      case Config_err env of
        Some e \<Rightarrow> (Inl e, w')
      | None \<Rightarrow>
          (case services w s of
             None \<Rightarrow> (Inl ''The specified service has been marked for deletion.'', w')
           | Some reg \<Rightarrow> (Inr (Cfg reg), w')))"

definition UpdateConfig ::
  "windows_env \<Rightarrow> string \<Rightarrow> mgr_Config \<Rightarrow> windows_world \<Rightarrow> error option \<times> windows_world" where
  "UpdateConfig env s cfg w =
     (let w' = called (Service_UpdateConfig s cfg) w in
      case UpdateConfig_err env of
        Some e \<Rightarrow> (Some e, w')
      | None \<Rightarrow>
          (case services w s of
             None \<Rightarrow> (Some ''The specified service has been marked for deletion.'', w')
           | Some reg \<Rightarrow> (None, w'\<lparr>services := (services w')(s \<mapsto> reg\<lparr>Cfg := cfg\<rparr>)\<rparr>)))"

definition Service_Start_call ::
  "windows_env \<Rightarrow> string \<Rightarrow> string list \<Rightarrow> windows_world \<Rightarrow> error option \<times> windows_world" where
  "Service_Start_call env s args w = (Start_err env, called (Service_Start s args) w)"

definition Control ::
  "windows_env \<Rightarrow> string \<Rightarrow> svc_Cmd \<Rightarrow> windows_world \<Rightarrow> error option \<times> windows_world" where
  "Control env s c w = (Control_err env, called (Service_Control s c) w)"

definition Delete :: "windows_env \<Rightarrow> string \<Rightarrow> windows_world \<Rightarrow> error option \<times> windows_world" where
  "Delete env s w =
     (let w' = called (Service_Delete s) w in
      case Delete_err env of
        Some e \<Rightarrow> (Some e, w')
      | None \<Rightarrow> (None, w'\<lparr>services := (services w')(s := None)\<rparr>))"

definition Close :: "string \<Rightarrow> windows_world \<Rightarrow> windows_world" where
  "Close s w = called (Service_Close s) w"

definition eventlog_Remove_call ::
  "windows_env \<Rightarrow> string \<Rightarrow> windows_world \<Rightarrow> error option \<times> windows_world" where
  "eventlog_Remove_call env name w = (eventlog_Remove_err env, called (eventlog_Remove name) w)"

text \<open>\<open>time.Sleep\<close>, in milliseconds.\<close>

definition Sleep :: "nat \<Rightarrow> windows_world \<Rightarrow> windows_world" where
  "Sleep ms w = called (time_Sleep ms) w"

subsection \<open>The operations of \<open>windowsService\<close>\<close>

definition buildConfig :: "windowsService \<Rightarrow> mgr_Config \<times> error option" where
  "buildConfig ws =
     (\<lparr>DisplayName = Name ws, Description = Name ws, StartType = mgr_StartAutomatic,
       ServiceStartName = ''.'' @ [CHR 0x5C] @ ''LocalSystem''\<rparr>, None)"

definition existingSvcAndConfig ::
  "windows_env \<Rightarrow> windowsService \<Rightarrow> windows_world
     \<Rightarrow> (string option \<times> mgr_Config \<times> error option) \<times> windows_world" where
  "existingSvcAndConfig env ws w =
     (case OpenService (OpenService_err env) (Name ws) w of
        (Inl err, w1) \<Rightarrow> ((None, mgr_Config_zero, None), w1)
      | (Inr s, w1) \<Rightarrow>
          (case Service_Config_of env s w1 of
             (Inl err, w2) \<Rightarrow> ((Some s, mgr_Config_zero, Some err), w2)
           | (Inr oldCfg, w2) \<Rightarrow> ((Some s, oldCfg, None), w2)))"

text \<open>
  \<open>InstallOrUpdateRequired\<close> starts with \<open>if true { return true, nil }\<close>; the statements
  after it are kept as the other branch.
\<close>

definition windowsService_InstallOrUpdateRequired ::
  "windows_env \<Rightarrow> windowsService \<Rightarrow> windows_world \<Rightarrow> (bool \<times> error option) \<times> windows_world" where
  "windowsService_InstallOrUpdateRequired env ws w =
     (if True then ((True, None), w)
      else
        (case Connect env w of
           (Some err, w1) \<Rightarrow> ((False, Some err), w1)
         | (None, w1) \<Rightarrow>
             (case existingSvcAndConfig env ws w1 of
                ((s, oldCfg, Some err), w2) \<Rightarrow> ((False, Some err), Disconnect w2)
              | ((None, oldCfg, None), w2) \<Rightarrow> ((True, None), Disconnect w2)
              | ((Some s, oldCfg, None), w2) \<Rightarrow>
                  (case buildConfig ws of
                     (cfg, Some err) \<Rightarrow> ((False, Some err), Disconnect w2)
                   | (cfg, None) \<Rightarrow> ((cfg \<noteq> oldCfg, None), Disconnect w2)))))"

definition doStart :: "windows_env \<Rightarrow> windowsService \<Rightarrow> windows_world \<Rightarrow> error option \<times> windows_world" where
  "doStart env ws w =
     (case OpenService (doStart_OpenService_err env) (Name ws) w of
        (Inl err, w1) \<Rightarrow> (Some err, w1)
      | (Inr s, w1) \<Rightarrow>
          (case Service_Start_call env s [] w1 of
             (err, w2) \<Rightarrow> (err, Close s w2)))"

text \<open>
  The command line registered for a new service: the executable in double quotes, then
  every argument in double quotes with \<open>strings.Replace(arg, `"`, `\"`, -1)\<close>.
\<close>

function strings_Replace :: "string \<Rightarrow> string \<Rightarrow> string \<Rightarrow> string" where
  "strings_Replace s old new =
     (if s = [] \<or> old = [] then s
      else if take (length old) s = old
           then new @ strings_Replace (drop (length old) s) old new
           else hd s # strings_Replace (tl s) old new)"
  by pat_completeness auto
termination
  by (relation "measure (\<lambda>(s, old, new). length s)") auto

declare strings_Replace.simps [simp del]

definition dquote :: char where
  "dquote = CHR 0x22"

definition backslash :: char where
  "backslash = CHR 0x5C"

definition quoteArg :: "string \<Rightarrow> string" where
  "quoteArg arg = [dquote] @ strings_Replace arg [dquote] [backslash, dquote] @ [dquote]"

definition binPath :: "string \<Rightarrow> string list \<Rightarrow> string" where
  "binPath exepath args =
     [dquote] @ exepath @ [dquote] @ concat (map (\<lambda>arg. '' '' @ quoteArg arg) args)"

text \<open>
  The rule by which Windows splits a command line into arguments: a double quote that
  follows an odd number of backslashes is a literal double quote; one that follows an
  even number of backslashes (none included) is raw, that is, it opens or closes a quoted
  part. \<open>raw_quote s\<close> says that the text \<open>s\<close> between the enclosing quotes of an argument
  holds a raw double quote; \<open>n\<close> counts the backslashes just before the position.
\<close>

fun raw_quote_run :: "nat \<Rightarrow> string \<Rightarrow> bool" where
  "raw_quote_run n [] = False"
| "raw_quote_run n (c # cs) =
     (if c = dquote then (if even n then True else raw_quote_run 0 cs)
      else if c = backslash then raw_quote_run (Suc n) cs
      else raw_quote_run 0 cs)"

definition raw_quote :: "string \<Rightarrow> bool" where
  "raw_quote s = raw_quote_run 0 s"

text \<open>The branch \<open>s == nil\<close> of \<open>InstallOrUpdate\<close>.\<close>

definition InstallOrUpdate_create ::
  "windows_env \<Rightarrow> windowsService \<Rightarrow> mgr_Config \<Rightarrow> windows_world
     \<Rightarrow> (bool \<times> error option) \<times> windows_world" where
  "InstallOrUpdate_create env ws cfg w =
     (case Executable env of
        Inl err \<Rightarrow> ((False, Some (''Unable to determine executable: '' @ err)), w)
      | Inr exepath \<Rightarrow>
          (case CreateService env (Name ws) (binPath exepath (Arguments ws)) cfg w of
             (Inl err, w1) \<Rightarrow> ((False, Some (''Unable to create service: '' @ err)), w1)
           | (Inr s, w1) \<Rightarrow>
               (case doStart env ws w1 of
                  (err, w2) \<Rightarrow> ((False, err), Close s w2))))"

text \<open>The branch \<open>s != nil\<close> of \<open>InstallOrUpdate\<close>.\<close>

definition InstallOrUpdate_update ::
  "windows_env \<Rightarrow> string \<Rightarrow> mgr_Config \<Rightarrow> windows_world
     \<Rightarrow> (bool \<times> error option) \<times> windows_world" where
  "InstallOrUpdate_update env s cfg w =
     (case UpdateConfig env s cfg w of
        (Some err, w1) \<Rightarrow> ((False, Some (''Unable to update config: '' @ err)), Close s w1)
      | (None, w1) \<Rightarrow> ((True, None), Close s w1))"

definition windowsService_InstallOrUpdate ::
  "windows_env \<Rightarrow> windowsService \<Rightarrow> windows_world \<Rightarrow> (bool \<times> error option) \<times> windows_world" where
  "windowsService_InstallOrUpdate env ws w =
     (case Connect env w of
        (Some err, w1) \<Rightarrow> ((False, Some (''Unable to connect to service manager: '' @ err)), w1)
      | (None, w1) \<Rightarrow>
          (case buildConfig ws of
             (cfg, Some err) \<Rightarrow> ((False, Some (''Unable to build config: '' @ err)), Disconnect w1)
           | (cfg, None) \<Rightarrow>
               (case existingSvcAndConfig env ws w1 of
                  ((s, oldCfg, Some err), w2) \<Rightarrow>
                    ((False, Some (''Unable to get existing service and config: '' @ err)),
                     Disconnect w2)
                | ((Some s, oldCfg, None), w2) \<Rightarrow>
                    (if cfg = oldCfg then ((False, None), Disconnect w2)
                     else (case InstallOrUpdate_update env s cfg w2 of
                             (ret, w3) \<Rightarrow> (ret, Disconnect w3)))
                | ((None, oldCfg, None), w2) \<Rightarrow>
                    (case InstallOrUpdate_create env ws cfg w2 of
                       (ret, w3) \<Rightarrow> (ret, Disconnect w3)))))"

definition windowsService_Uninstall ::
  "windows_env \<Rightarrow> windowsService \<Rightarrow> windows_world \<Rightarrow> error option \<times> windows_world" where
  "windowsService_Uninstall env ws w =
     (case Connect env w of
        (Some err, w1) \<Rightarrow> (Some err, w1)
      | (None, w1) \<Rightarrow>
          (case OpenService (OpenService_err env) (Name ws) w1 of
             (Inl err, w2) \<Rightarrow>
               (Some (''service '' @ Name ws @ '' is not installed''), Disconnect w2)
           | (Inr s, w2) \<Rightarrow>
               (case Delete env s w2 of
                  (Some err, w3) \<Rightarrow> (Some err, Disconnect (Close s w3))
                | (None, w3) \<Rightarrow>
                    (case eventlog_Remove_call env (Name ws) w3 of
                       (Some err, w4) \<Rightarrow>
                         (Some (''RemoveEventLogSource() failed: '' @ err),
                          Disconnect (Close s w4))
                     | (None, w4) \<Rightarrow> (None, Disconnect (Close s w4))))))"

definition windowsService_Start ::
  "windows_env \<Rightarrow> windowsService \<Rightarrow> windows_world \<Rightarrow> error option \<times> windows_world" where
  "windowsService_Start env ws w =
     (case Connect env w of
        (Some err, w1) \<Rightarrow> (Some err, w1)
      | (None, w1) \<Rightarrow> (None, Disconnect w1))"

definition windowsService_Stop ::
  "windows_env \<Rightarrow> windowsService \<Rightarrow> windows_world \<Rightarrow> error option \<times> windows_world" where
  "windowsService_Stop env ws w =
     (case Connect env w of
        (Some err, w1) \<Rightarrow> (Some err, w1)
      | (None, w1) \<Rightarrow>
          (case OpenService (OpenService_err env) (Name ws) w1 of
             (Inl err, w2) \<Rightarrow> (Some err, Disconnect w2)
           | (Inr s, w2) \<Rightarrow>
               (case Control env s svc_Stop w2 of
                  (err, w3) \<Rightarrow> (err, Disconnect (Close s w3)))))"

text \<open>\<open>Restart\<close>; the two calls meet the environments \<open>env1\<close> and \<open>env2\<close>.\<close>

definition windowsService_Restart ::
  "windows_env \<Rightarrow> windows_env \<Rightarrow> windowsService \<Rightarrow> windows_world
     \<Rightarrow> error option \<times> windows_world" where
  "windowsService_Restart env1 env2 ws w =
     (case windowsService_Stop env1 ws w of
        (Some err, w1) \<Rightarrow> (Some err, w1)
      | (None, w1) \<Rightarrow> windowsService_Start env2 ws (Sleep 50 w1))"

text \<open>The calls an operation has added, from the world before it and the world after it.\<close>

definition new_calls :: "windows_world \<Rightarrow> windows_world \<Rightarrow> scm_call list" where
  "new_calls w w' = drop (length (calls w)) (calls w')"

text \<open>\<open>New\<close> of service.go over \<open>newService\<close> of this backend.\<close>

definition windows_New :: "Config \<Rightarrow> error + windowsService" where
  "windows_New c = (if length (Name c) = 0 then Inl errNameFieldRequired else Inr (windows_newService c))"

section \<open>macOS backend: launchd\<close>

text \<open>
  The file system, as far as the operations touch it: regular files by path, each with
  its content, permission bits and owner; and the commands that were started and the
  sleeps taken, in order. \<open>time.Sleep\<close> is recorded in milliseconds. The \<open>log\<close> lines
  are not modelled.
\<close>

record os_file =
  content :: string
  mode :: nat
  uid :: nat
  gid :: nat

datatype effect =
  exec_Command "string list"
  | commandAsRoot "string list"
  | time_Sleep_ms nat

record darwin_world =
  fs :: "string \<rightharpoonup> os_file"
  effects :: "effect list"

text \<open>
  The two ways in which \<open>exec.Cmd.Run\<close> returns an error: the command could not be
  started (the executable is not found, or fork or exec fails), so that no process ever
  ran; or the process ran and exited with a failure.
\<close>

datatype run_error = not_started error | exited error

text \<open>
  What the environment decides in one call of an operation: the name
  \<open>ioutil.TempFile\<close> picks, the user the process runs as, how many bytes a failing
  template execution has written, and for every call site the error with which the
  system call or the command fails (\<open>None\<close>: it is carried out).
\<close>

record darwin_env =
  TempFile_name :: string
  TempFile_err :: "error option"
  process_uid :: nat
  process_gid :: nat
  template_Execute_err :: "error option"
  template_Execute_written :: nat
  Chmod_err :: "error option"
  Close_err :: "error option"
  Stat_err :: "error option"
  ReadFile_old_err :: "error option"
  ReadFile_new_err :: "error option"
  Rename_err :: "error option"
  Chown_err :: "error option"
  launchctl_load_err :: "run_error option"
  launchctl_unload_err :: "run_error option"
  launchctl_start_err :: "run_error option"
  launchctl_stop_err :: "run_error option"

record darwinLaunchdService = Config +
  serviceFilePath :: string

text \<open>
  \<open>newService\<close>; \<open>executable\<close> is the result of \<open>osext.Executable()\<close>.
  \<open>filepath.Join("/Library/LaunchDaemons/", name + ".plist")\<close> is the concatenation, as it
  is for a name without path separators.
\<close>

definition darwin_newService :: "error + string \<Rightarrow> Config \<Rightarrow> error + darwinLaunchdService" where
  "darwin_newService executable c =
     (let s = \<lparr>Name = Name c, Privileged = Privileged c, Program = Program c,
               Arguments = Arguments c, WorkingDirectory = WorkingDirectory c,
               Start = Start c, Stop = Stop c,
               serviceFilePath = ''/Library/LaunchDaemons/'' @ Name c @ ''.plist''\<rparr>
      in if Program s = []
         then (case executable of
                 Inl err \<Rightarrow> Inl (''Unable to determin program: '' @ err)
               | Inr program \<Rightarrow> Inr (s\<lparr>Program := program\<rparr>))
         else Inr s)"

definition darwin_New :: "error + string \<Rightarrow> Config \<Rightarrow> error + darwinLaunchdService" where
  "darwin_New executable c =
     (if length (Name c) = 0 then Inl errNameFieldRequired else darwin_newService executable c)"

subsection \<open>Rendering the property list\<close>

text \<open>
  The template function \<open>html\<close> of Go's \<open>text/template\<close> (\<open>HTMLEscapeString\<close>): the
  double quote, the apostrophe, the ampersand and the angle brackets are replaced by
  character references, the NUL byte by U+FFFD in UTF-8.
\<close>

definition squote :: char where
  "squote = CHR 0x27"

definition newline :: char where
  "newline = CHR 0x0A"

definition tab :: char where
  "tab = CHR 0x09"

definition htmlQuot :: string where
  "htmlQuot = ''&#34;''"

definition HTMLEscape_byte :: "char \<Rightarrow> string" where
  "HTMLEscape_byte c =
     (if c = dquote then htmlQuot
      else if c = squote then ''&#39;''
      else if c = CHR ''&'' then ''&amp;''
      else if c = CHR ''<'' then ''&lt;''
      else if c = CHR ''>'' then ''&gt;''
      else if c = CHR 0x00 then [CHR 0xEF, CHR 0xBF, CHR 0xBD]
      else [c])"

definition html :: "string \<Rightarrow> string" where
  "html s = concat (map HTMLEscape_byte s)"

text \<open>The body of \<open>{{range .Config.Arguments}} ... {{end}}\<close> for one argument.\<close>

definition launchdConfig_argument :: "string \<Rightarrow> string" where
  "launchdConfig_argument arg =
     [newline] @ ''        <string>'' @ html arg @ ''</string>'' @ [newline]"

definition launchdConfig_arguments :: "string list \<Rightarrow> string" where
  "launchdConfig_arguments args = concat (map launchdConfig_argument args)"

definition launchdConfig_head :: "darwinLaunchdService \<Rightarrow> string" where
  "launchdConfig_head s =
     ''<?xml version='' @ [squote] @ ''1.0'' @ [squote] @ '' encoding='' @ [squote] @ ''UTF-8''
       @ [squote] @ ''?>'' @ [newline]
     @ ''<!DOCTYPE plist PUBLIC '' @ [dquote] @ ''-//Apple Computer//DTD PLIST 1.0//EN''
       @ [dquote] @ [newline]
     @ [dquote] @ ''http://www.apple.com/DTDs/PropertyList-1.0.dtd'' @ [dquote] @ '' >''
       @ [newline]
     @ ''<plist version='' @ [squote] @ ''1.0'' @ [squote] @ ''>'' @ [newline]
     @ ''<dict>'' @ [newline]
     @ ''<key>Label</key><string>'' @ html (Name s) @ ''</string>'' @ [newline]
     @ ''<key>Program</key><string>'' @ html (Program s) @ ''</string>'' @ [newline]
     @ ''<key>ProgramArguments</key>'' @ [newline]
     @ ''<array>''"

definition launchdConfig_tail :: "darwinLaunchdService \<Rightarrow> string" where
  "launchdConfig_tail s =
     ''</array>'' @ [newline]
     @ (if WorkingDirectory s \<noteq> []
        then ''<key>WorkingDirectory</key><string>'' @ html (WorkingDirectory s) @ ''</string>''
        else [])
     @ [newline]
     @ ''<key>KeepAlive</key>'' @ [newline]
     @ ''<dict>'' @ [newline]
     @ [tab] @ ''<key>SuccessfulExit</key>'' @ [newline]
     @ [tab] @ ''<false/>'' @ [newline]
     @ ''</dict>'' @ [newline]
     @ ''<key>RunAtLoad</key><true/>'' @ [newline]
     @ ''<key>Disabled</key><false/>'' @ [newline]
     @ ''<key>UserName</key>'' @ [newline]
     @ ''<string>root</string>'' @ [newline]
     @ ''<key>GroupName</key>'' @ [newline]
     @ ''<string>wheel</string>'' @ [newline]
     @ ''<key>InitGroups</key>'' @ [newline]
     @ ''<true/>'' @ [newline]
     @ ''</dict>'' @ [newline]
     @ ''</plist>'' @ [newline]"

text \<open>The template \<open>launchdConfig\<close> executed on the service.\<close>

definition launchdConfig :: "darwinLaunchdService \<Rightarrow> string" where
  "launchdConfig s =
     launchdConfig_head s @ launchdConfig_arguments (Arguments s) @ launchdConfig_tail s"

subsection \<open>System calls\<close>

text \<open>
  \<open>ioutil.TempFile\<close> creates an empty file of mode 0600 under a name that does not
  exist yet; a name that is taken is the failure of all its attempts.
\<close>

definition TempFile :: "darwin_env \<Rightarrow> darwin_world \<Rightarrow> (error + string) \<times> darwin_world" where
  "TempFile env w =
     (case TempFile_err env of
        Some e \<Rightarrow> (Inl e, w)
      | None \<Rightarrow>
          (case fs w (TempFile_name env) of
             Some f \<Rightarrow> (Inl ''file exists'', w)
           | None \<Rightarrow>
               (Inr (TempFile_name env),
                w\<lparr>fs := (fs w)(TempFile_name env \<mapsto>
                      \<lparr>content = [], mode = 384, uid = process_uid env, gid = process_gid env\<rparr>)\<rparr>)))"

text \<open>
  \<open>t.Execute(tmpFile, s)\<close> writes the rendered template to the open file; when a
  write fails, the bytes written so far stay in the file.
\<close>

definition template_Execute ::
  "darwin_env \<Rightarrow> darwinLaunchdService \<Rightarrow> string \<Rightarrow> darwin_world \<Rightarrow> error option \<times> darwin_world" where
  "template_Execute env s tmpFile w =
     (case fs w tmpFile of
        None \<Rightarrow> (Some ''file already closed'', w)
      | Some f \<Rightarrow>
          (case template_Execute_err env of
             Some e \<Rightarrow>
               (Some e,
                w\<lparr>fs := (fs w)(tmpFile \<mapsto>
                      f\<lparr>content := take (template_Execute_written env) (launchdConfig s)\<rparr>)\<rparr>)
           | None \<Rightarrow> (None, w\<lparr>fs := (fs w)(tmpFile \<mapsto> f\<lparr>content := launchdConfig s\<rparr>)\<rparr>)))"

definition File_Chmod ::
  "darwin_env \<Rightarrow> string \<Rightarrow> nat \<Rightarrow> darwin_world \<Rightarrow> error option \<times> darwin_world" where
  "File_Chmod env p m w =
     (case Chmod_err env of
        Some e \<Rightarrow> (Some e, w)
      | None \<Rightarrow>
          (case fs w p of
             None \<Rightarrow> (Some ''no such file or directory'', w)
           | Some f \<Rightarrow> (None, w\<lparr>fs := (fs w)(p \<mapsto> f\<lparr>mode := m\<rparr>)\<rparr>)))"

datatype stat_result = stat_ok | stat_IsNotExist error | stat_other error

definition os_Stat :: "darwin_env \<Rightarrow> string \<Rightarrow> darwin_world \<Rightarrow> stat_result" where
  "os_Stat env p w =
     (case Stat_err env of
        Some e \<Rightarrow> stat_other e
      | None \<Rightarrow>
          (case fs w p of
             None \<Rightarrow> stat_IsNotExist (''stat '' @ p @ '': no such file or directory'')
           | Some f \<Rightarrow> stat_ok))"

definition ReadFile :: "error option \<Rightarrow> string \<Rightarrow> darwin_world \<Rightarrow> error + string" where
  "ReadFile fault p w =
     (case fault of
        Some e \<Rightarrow> Inl e
      | None \<Rightarrow>
          (case fs w p of
             None \<Rightarrow> Inl (''open '' @ p @ '': no such file or directory'')
           | Some f \<Rightarrow> Inr (content f)))"

text \<open>\<open>os.Rename\<close> replaces the file at the new path in one step, or fails and changes nothing.\<close>

definition os_Rename ::
  "darwin_env \<Rightarrow> string \<Rightarrow> string \<Rightarrow> darwin_world \<Rightarrow> error option \<times> darwin_world" where
  "os_Rename env oldpath newpath w =
     (case Rename_err env of
        Some e \<Rightarrow> (Some e, w)
      | None \<Rightarrow>
          (case fs w oldpath of
             None \<Rightarrow> (Some (''rename '' @ oldpath @ '' '' @ newpath @ '': no such file or directory''), w)
           | Some f \<Rightarrow>
               (if oldpath = newpath then (None, w)
                else (None, w\<lparr>fs := ((fs w)(newpath \<mapsto> f))(oldpath := None)\<rparr>))))"

definition os_Chown ::
  "darwin_env \<Rightarrow> string \<Rightarrow> nat \<Rightarrow> nat \<Rightarrow> darwin_world \<Rightarrow> error option \<times> darwin_world" where
  "os_Chown env p u g w =
     (case Chown_err env of
        Some e \<Rightarrow> (Some e, w)
      | None \<Rightarrow>
          (case fs w p of
             None \<Rightarrow> (Some (''chown '' @ p @ '': no such file or directory''), w)
           | Some f \<Rightarrow> (None, w\<lparr>fs := (fs w)(p \<mapsto> f\<lparr>uid := u, gid := g\<rparr>)\<rparr>)))"

definition os_Remove :: "string \<Rightarrow> darwin_world \<Rightarrow> error option \<times> darwin_world" where
  "os_Remove p w =
     (case fs w p of
        None \<Rightarrow> (Some (''remove '' @ p @ '': no such file or directory''), w)
      | Some f \<Rightarrow> (None, w\<lparr>fs := (fs w)(p := None)\<rparr>))"

text \<open>
  \<open>Cmd.Run\<close>: a command that is started is recorded in the effects, whether it succeeds
  or exits with a failure; a command that cannot be started leaves no effect.
\<close>

definition Cmd_Run ::
  "effect \<Rightarrow> run_error option \<Rightarrow> darwin_world \<Rightarrow> error option \<times> darwin_world" where
  "Cmd_Run c fault w =
     (case fault of
        None \<Rightarrow> (None, w\<lparr>effects := effects w @ [c]\<rparr>)
      | Some (not_started err) \<Rightarrow> (Some err, w)
      | Some (exited err) \<Rightarrow> (Some err, w\<lparr>effects := effects w @ [c]\<rparr>))"

definition darwin_Sleep :: "nat \<Rightarrow> darwin_world \<Rightarrow> darwin_world" where
  "darwin_Sleep ms w = w\<lparr>effects := effects w @ [time_Sleep_ms ms]\<rparr>"

subsection \<open>The operations of \<open>darwinLaunchdService\<close>\<close>

text \<open>
  \<open>prepareTmpFile\<close>. The deferred \<open>tmpFile.Close()\<close> and the explicit one only release
  the descriptor; \<open>Close_err\<close> is the failure of the explicit one.
\<close>

definition prepareTmpFile ::
  "darwin_env \<Rightarrow> darwinLaunchdService \<Rightarrow> darwin_world \<Rightarrow> (string \<times> error option) \<times> darwin_world" where
  "prepareTmpFile env s w =
     (case TempFile env w of
        (Inl err, w1) \<Rightarrow>
          (([], Some (''Unable to create temporary service configuration: '' @ err)), w1)
      | (Inr tmpFile, w1) \<Rightarrow>
          (case template_Execute env s tmpFile w1 of
             (Some err, w2) \<Rightarrow>
               (([], Some (''Unable to process service configuration template: '' @ err)), w2)
           | (None, w2) \<Rightarrow>
               (case File_Chmod env tmpFile 420 w2 of
                  (Some err, w3) \<Rightarrow> (([], Some (''Unable to chmod temp file: '' @ err)), w3)
                | (None, w3) \<Rightarrow>
                    (case Close_err env of
                       Some err \<Rightarrow> (([], Some (''Unable to close temp file: '' @ err)), w3)
                     | None \<Rightarrow> ((tmpFile, None), w3)))))"

text \<open>Five hours, in milliseconds.\<close>

definition five_hours :: nat where
  "five_hours = 5 * 60 * 60 * 1000"

definition differsFromInstalled ::
  "darwin_env \<Rightarrow> darwinLaunchdService \<Rightarrow> string \<Rightarrow> darwin_world
     \<Rightarrow> (bool \<times> error option) \<times> darwin_world" where
  "differsFromInstalled env s tmpFile w =
     (case os_Stat env (serviceFilePath s) w of
        stat_ok \<Rightarrow>
          (case ReadFile (ReadFile_old_err env) (serviceFilePath s) w of
             Inl err \<Rightarrow>
               ((False, Some (''Unable to read existing launchd configuration at ''
                   @ serviceFilePath s @ '' for comparing: '' @ err)), w)
           | Inr old \<Rightarrow>
               (case ReadFile (ReadFile_new_err env) tmpFile w of
                  Inl err \<Rightarrow>
                    ((False, Some (''Unable to read updated launchd configuration at ''
                        @ tmpFile @ '' for comparing: '' @ err)), w)
                | Inr updated \<Rightarrow>
                    (if old = updated then ((False, None), w)
                     else ((True, None), darwin_Sleep five_hours w))))
      | stat_other err \<Rightarrow>
          ((False, Some (''Unable to stat existing launchd configuration at ''
              @ serviceFilePath s @ '': '' @ err)), w)
      | stat_IsNotExist err \<Rightarrow> ((True, None), w))"

text \<open>\<open>defer os.Remove(tmpFile)\<close>, registered only when \<open>tmpFile != ""\<close>.\<close>

definition deferred_Remove :: "string \<Rightarrow> darwin_world \<Rightarrow> darwin_world" where
  "deferred_Remove tmpFile w = (if tmpFile \<noteq> [] then snd (os_Remove tmpFile w) else w)"

definition darwin_InstallOrUpdateRequired ::
  "darwin_env \<Rightarrow> darwinLaunchdService \<Rightarrow> darwin_world \<Rightarrow> (bool \<times> error option) \<times> darwin_world" where
  "darwin_InstallOrUpdateRequired env s w =
     (case prepareTmpFile env s w of
        ((tmpFile, Some err), w1) \<Rightarrow> ((False, Some err), deferred_Remove tmpFile w1)
      | ((tmpFile, None), w1) \<Rightarrow>
          (case differsFromInstalled env s tmpFile w1 of
             (ret, w2) \<Rightarrow> (ret, deferred_Remove tmpFile w2)))"

text \<open>The statements of \<open>InstallOrUpdate\<close> from \<open>differsFromInstalled\<close> on.\<close>

definition InstallOrUpdate_apply ::
  "darwin_env \<Rightarrow> darwinLaunchdService \<Rightarrow> string \<Rightarrow> darwin_world
     \<Rightarrow> (bool \<times> error option) \<times> darwin_world" where
  "InstallOrUpdate_apply env s tmpFile w =
     (case differsFromInstalled env s tmpFile w of
        ((installOrUpdateRequired, Some err), w1) \<Rightarrow>
          ((installOrUpdateRequired,
            Some (''Unable to determine if new configuration differs from old: '' @ err)), w1)
      | ((installOrUpdateRequired, None), w1) \<Rightarrow>
          (case os_Rename env tmpFile (serviceFilePath s) w1 of
             (Some err, w2) \<Rightarrow>
               ((False, Some (''Unable to move service configuration to: '' @ err)), w2)
           | (None, w2) \<Rightarrow>
               (case os_Chown env (serviceFilePath s) 0 0 w2 of
                  (Some err, w3) \<Rightarrow>
                    ((False, Some (''Unable to change owner to root: '' @ err)), w3)
                | (None, w3) \<Rightarrow>
                    (case Cmd_Run (commandAsRoot [''launchctl'', ''load'', serviceFilePath s])
                            (launchctl_load_err env) w3 of
                       (Some err, w4) \<Rightarrow> ((False, Some (''Unable to load service: '' @ err)), w4)
                     | (None, w4) \<Rightarrow> ((True, None), w4)))))"

definition darwin_InstallOrUpdate ::
  "darwin_env \<Rightarrow> darwinLaunchdService \<Rightarrow> darwin_world \<Rightarrow> (bool \<times> error option) \<times> darwin_world" where
  "darwin_InstallOrUpdate env s w =
     (case prepareTmpFile env s w of
        ((tmpFile, Some err), w1) \<Rightarrow> ((False, Some err), deferred_Remove tmpFile w1)
      | ((tmpFile, None), w1) \<Rightarrow>
          (case InstallOrUpdate_apply env s tmpFile w1 of
             (ret, w2) \<Rightarrow> (ret, deferred_Remove tmpFile w2)))"


definition darwin_Uninstall ::
  "darwin_env \<Rightarrow> darwinLaunchdService \<Rightarrow> darwin_world \<Rightarrow> error option \<times> darwin_world" where
  "darwin_Uninstall env s w =
     (case Cmd_Run (exec_Command [''sudo'', ''launchctl'', ''unload'', serviceFilePath s])
             (launchctl_unload_err env) w of
        (Some err, w1) \<Rightarrow> (Some (''Unable to unload service prior to uninstalling: '' @ err), w1)
      | (None, w1) \<Rightarrow> os_Remove (serviceFilePath s) w1)"

definition darwin_Start ::
  "darwin_env \<Rightarrow> darwinLaunchdService \<Rightarrow> darwin_world \<Rightarrow> error option \<times> darwin_world" where
  "darwin_Start env s w =
     Cmd_Run (commandAsRoot [''launchctl'', ''start'', Name s]) (launchctl_start_err env) w"

definition darwin_Stop ::
  "darwin_env \<Rightarrow> darwinLaunchdService \<Rightarrow> darwin_world \<Rightarrow> error option \<times> darwin_world" where
  "darwin_Stop env s w =
     Cmd_Run (commandAsRoot [''launchctl'', ''stop'', Name s]) (launchctl_stop_err env) w"

definition darwin_Restart ::
  "darwin_env \<Rightarrow> darwinLaunchdService \<Rightarrow> darwin_world \<Rightarrow> error option \<times> darwin_world" where
  "darwin_Restart env s w =
     (case darwin_Stop env s w of
        (Some err, w1) \<Rightarrow> (Some err, w1)
      | (None, w1) \<Rightarrow> darwin_Start env s (darwin_Sleep 50 w1))"

text \<open>
  The effects an operation has added, the command that asks launchd to load the
  descriptor, and the content installed at the canonical path.
\<close>

definition new_effects :: "darwin_world \<Rightarrow> darwin_world \<Rightarrow> effect list" where
  "new_effects w w' = drop (length (effects w)) (effects w')"

definition launchctl_load :: "darwinLaunchdService \<Rightarrow> effect" where
  "launchctl_load s = commandAsRoot [''launchctl'', ''load'', serviceFilePath s]"

definition installed :: "darwinLaunchdService \<Rightarrow> darwin_world \<Rightarrow> string option" where
  "installed s w = map_option content (fs w (serviceFilePath s))"

section \<open>Concrete inputs\<close>

text \<open>The scenario of the specification: \<open>Config{Name: "demo", Program: "/usr/bin/demo", Arguments: ["--flag", "va\"lue"]}\<close>.\<close>

definition demo :: Config where
  "demo = \<lparr>Name = ''demo'', Privileged = True, Program = ''/usr/bin/demo'',
            Arguments = [''--flag'', ''va'' @ [dquote] @ ''lue''], WorkingDirectory = [],
            Start = None, Stop = None\<rparr>"

definition demo_windows :: windowsService where
  "demo_windows = windows_newService demo"

text \<open>The same service with the one argument \<open>a\"b\<close>: a, backslash, double quote, b.\<close>

definition demo_backslash_quote :: windowsService where
  "demo_backslash_quote =
     windows_newService (demo\<lparr>Arguments := [''a'' @ [backslash, dquote] @ ''b'']\<rparr>)"

definition demo_onStart_fails :: windowsService where
  "demo_onStart_fails = windows_newService (demo\<lparr>Start := Some ''start failed''\<rparr>)"

definition demo_onStop_fails :: windowsService where
  "demo_onStop_fails = windows_newService (demo\<lparr>Stop := Some (Some ''stop failed'')\<rparr>)"

text \<open>The OS interrogates the service once and then stops it.\<close>

definition interrogate_then_stop :: svc_env where
  "interrogate_then_stop =
     \<lparr>dispatch_err = None, run_err = None,
      requests =
        [\<lparr>Cmd = svc_Interrogate, CurrentStatus = \<lparr>State = svc_Running, Accepts = cmdsAccepted\<rparr>\<rparr>,
         \<lparr>Cmd = svc_Stop, CurrentStatus = \<lparr>State = svc_Running, Accepts = cmdsAccepted\<rparr>\<rparr>]\<rparr>"

text \<open>A manager that carries out every call, and a manager with no service registered.\<close>

definition manager_ok :: windows_env where
  "manager_ok =
     \<lparr>Connect_err = None, OpenService_err = None, Config_err = None,
      Executable = Inr ''C:/demo.exe'', CreateService_err = None,
      doStart_OpenService_err = None, Start_err = None, UpdateConfig_err = None,
      Control_err = None, Delete_err = None, eventlog_Remove_err = None\<rparr>"

definition no_services :: windows_world where
  "no_services = \<lparr>services = Map.empty, calls = []\<rparr>"

text \<open>The \<open>demo\<close> service registered with an older configuration.\<close>

definition demo_registered_old :: windows_world where
  "demo_registered_old =
     \<lparr>services = [''demo'' \<mapsto>
        \<lparr>BinaryPathName = [dquote] @ ''C:/demo.exe'' @ [dquote],
         Cfg = \<lparr>DisplayName = ''Demo'', Description = ''old'', StartType = 3,
                ServiceStartName = ''LocalSystem''\<rparr>\<rparr>],
      calls = []\<rparr>"

definition demo_darwin :: darwinLaunchdService where
  "demo_darwin =
     \<lparr>Name = ''demo'', Privileged = True, Program = ''/usr/bin/demo'',
      Arguments = [''--flag'', ''va'' @ [dquote] @ ''lue''], WorkingDirectory = [],
      Start = None, Stop = None,
      serviceFilePath = ''/Library/LaunchDaemons/demo.plist''\<rparr>"

text \<open>A system on which every call succeeds.\<close>

definition system_ok :: darwin_env where
  "system_ok =
     \<lparr>TempFile_name = ''/tmp/service.plist123'', TempFile_err = None,
      process_uid = 501, process_gid = 20,
      template_Execute_err = None, template_Execute_written = 0,
      Chmod_err = None, Close_err = None, Stat_err = None,
      ReadFile_old_err = None, ReadFile_new_err = None, Rename_err = None, Chown_err = None,
      launchctl_load_err = None, launchctl_unload_err = None,
      launchctl_start_err = None, launchctl_stop_err = None\<rparr>"

definition nothing_installed :: darwin_world where
  "nothing_installed = \<lparr>fs = Map.empty, effects = []\<rparr>"



definition template_fails :: darwin_env where
  "template_fails =
     system_ok\<lparr>template_Execute_err := Some ''no space left on device'',
               template_Execute_written := 10\<rparr>"

definition unload_fails :: darwin_env where
  "unload_fails = system_ok\<lparr>launchctl_unload_err := Some (exited ''exit status 1'')\<rparr>"






section \<open>Properties of the control bridge\<close>

lemma Execute_loop_onStop_error:
  "Stop ws = Some (Some e) \<Longrightarrow> returned (Execute_loop ws r ch) \<noteq> None \<Longrightarrow>
   returned (Execute_loop ws r ch) = Some (True, 2)"
  by (induction r arbitrary: ch) (auto simp: Execute_stop_def Let_def split: svc_Cmd.splits)

lemma Execute_loop_stop_returned:
  "Stop ws = Some (Some e) \<Longrightarrow>
   svc_Stop \<in> Cmd ` set r \<or> svc_Shutdown \<in> Cmd ` set r \<Longrightarrow>
   returned (Execute_loop ws r ch) = Some (True, 2)"
proof (induction r arbitrary: ch)
  case Nil
  then show ?case by simp
next
  case (Cons c r)
  show ?case
  proof (cases "Cmd c")
    case svc_Stop
    with Cons.prems(1) show ?thesis by (simp add: Execute_stop_def Let_def)
  next
    case svc_Shutdown
    with Cons.prems(1) show ?thesis by (simp add: Execute_stop_def Let_def)
  next
    case svc_Interrogate
    with Cons.prems(2) have "svc_Stop \<in> Cmd ` set r \<or> svc_Shutdown \<in> Cmd ` set r" by simp
    with Cons.IH [OF Cons.prems(1)] svc_Interrogate show ?thesis by simp
  next
    case svc_Pause
    with Cons.prems(2) have "svc_Stop \<in> Cmd ` set r \<or> svc_Shutdown \<in> Cmd ` set r" by simp
    with Cons.IH [OF Cons.prems(1)] svc_Pause show ?thesis by simp
  next
    case svc_Continue
    with Cons.prems(2) have "svc_Stop \<in> Cmd ` set r \<or> svc_Shutdown \<in> Cmd ` set r" by simp
    with Cons.IH [OF Cons.prems(1)] svc_Continue show ?thesis by simp
  qed
qed

lemma Execute_loop_stop_handler:
  "Stop ws = Some (Some e) \<Longrightarrow>
   svc_Stop \<in> Cmd ` set r \<or> svc_Shutdown \<in> Cmd ` set r \<Longrightarrow>
   handler (Execute_loop ws r ch) = setError ws (Some e)"
proof (induction r arbitrary: ch)
  case Nil
  then show ?case by simp
next
  case (Cons c r)
  show ?case
  proof (cases "Cmd c")
    case svc_Stop
    with Cons.prems(1) show ?thesis by (simp add: Execute_stop_def Let_def)
  next
    case svc_Shutdown
    with Cons.prems(1) show ?thesis by (simp add: Execute_stop_def Let_def)
  next
    case svc_Interrogate
    with Cons.prems(2) have "svc_Stop \<in> Cmd ` set r \<or> svc_Shutdown \<in> Cmd ` set r" by simp
    with Cons.IH [OF Cons.prems(1)] svc_Interrogate show ?thesis by simp
  next
    case svc_Pause
    with Cons.prems(2) have "svc_Stop \<in> Cmd ` set r \<or> svc_Shutdown \<in> Cmd ` set r" by simp
    with Cons.IH [OF Cons.prems(1)] svc_Pause show ?thesis by simp
  next
    case svc_Continue
    with Cons.prems(2) have "svc_Stop \<in> Cmd ` set r \<or> svc_Shutdown \<in> Cmd ` set r" by simp
    with Cons.IH [OF Cons.prems(1)] svc_Continue show ?thesis by simp
  qed
qed

lemma Execute_loop_stop_last:
  "svc_Stop \<in> Cmd ` set r \<or> svc_Shutdown \<in> Cmd ` set r \<Longrightarrow>
   last (changes (Execute_loop ws r ch)) = \<lparr>State = svc_StopPending, Accepts = {}\<rparr>"
proof (induction r arbitrary: ch)
  case Nil
  then show ?case by simp
next
  case (Cons c r)
  show ?case
  proof (cases "Cmd c")
    case svc_Stop
    then show ?thesis by (simp add: Execute_stop_def Let_def split: option.splits)
  next
    case svc_Shutdown
    then show ?thesis by (simp add: Execute_stop_def Let_def split: option.splits)
  next
    case svc_Interrogate
    with Cons.prems have "svc_Stop \<in> Cmd ` set r \<or> svc_Shutdown \<in> Cmd ` set r" by simp
    with Cons.IH svc_Interrogate show ?thesis by simp
  next
    case svc_Pause
    with Cons.prems have "svc_Stop \<in> Cmd ` set r \<or> svc_Shutdown \<in> Cmd ` set r" by simp
    with Cons.IH svc_Pause show ?thesis by simp
  next
    case svc_Continue
    with Cons.prems have "svc_Stop \<in> Cmd ` set r \<or> svc_Shutdown \<in> Cmd ` set r" by simp
    with Cons.IH svc_Continue show ?thesis by simp
  qed
qed

lemma Execute_loop_changes_append:
  "\<exists>xs. changes (Execute_loop ws r ch) = ch @ xs"
proof (induction r arbitrary: ch)
  case Nil
  show ?case by simp
next
  case (Cons c r)
  show ?case
  proof (cases "Cmd c")
    case svc_Interrogate
    from Cons [of "ch @ [CurrentStatus c]"] obtain xs
      where "changes (Execute_loop ws r (ch @ [CurrentStatus c])) = (ch @ [CurrentStatus c]) @ xs" ..
    with svc_Interrogate show ?thesis by simp
  next
    case svc_Stop
    then show ?thesis by (simp add: Execute_stop_def Let_def split: option.splits)
  next
    case svc_Shutdown
    then show ?thesis by (simp add: Execute_stop_def Let_def split: option.splits)
  next
    case svc_Pause
    with Cons [of ch] show ?thesis by simp
  next
    case svc_Continue
    with Cons [of ch] show ?thesis by simp
  qed
qed

lemma Execute_loop_changes_prefix:
  "take (length ch) (changes (Execute_loop ws r ch)) = ch"
  using Execute_loop_changes_append [of ws r ch] by auto

lemma Execute_onStart_error:
  "Start ws = Some e \<Longrightarrow>
   Execute ws args r =
     \<lparr>handler = setError ws (Some e),
      changes = [\<lparr>State = svc_StartPending, Accepts = {}\<rparr>],
      returned = Some (True, 1)\<rparr>"
  by (simp add: Execute_def)

lemma Execute_onStop_error_code:
  "Start ws = None \<Longrightarrow> Stop ws = Some (Some e) \<Longrightarrow>
   returned (Execute ws args r) \<noteq> None \<Longrightarrow> returned (Execute ws args r) = Some (True, 2)"
  using Execute_loop_onStop_error [of ws e r]
  by (simp add: Execute_def)

text \<open>
  C5. When the \<open>onStart\<close> callback returns an error \<open>e\<close> (the dispatcher has called
  \<open>Execute\<close>), \<open>Run\<close> returns \<open>e\<close>; the only status reported to the OS is
  \<open>StartPending\<close>, so \<open>Running\<close> is never reported; \<open>e\<close> is recorded in \<open>stopStartErr\<close>;
  the exit code reported is the service-specific code 1, which is not zero and differs
  from the code of every run that ends with a failing \<open>onStop\<close>.
\<close>

theorem C5_onStart_error:
  assumes "Start ws = Some e" and "dispatch_err env = None"
  shows "Run_returned (windowsService_Run env ws) = Some (Some e)
       \<and> reported (windowsService_Run env ws) = [\<lparr>State = svc_StartPending, Accepts = {}\<rparr>]
       \<and> svc_Running \<notin> State ` set (reported (windowsService_Run env ws))
       \<and> stopStartErr (service (windowsService_Run env ws)) = Some e
       \<and> exit_code (windowsService_Run env ws) = Some (True, 1)
       \<and> (\<forall>ws' args' r' e'.
             Start ws' = None \<and> Stop ws' = Some (Some e') \<and> returned (Execute ws' args' r') \<noteq> None
             \<longrightarrow> returned (Execute ws' args' r') \<noteq> exit_code (windowsService_Run env ws))"
proof -
  have st: "Start (setError ws None) = Some e"
    using assms(1) by (simp add: setError_def)
  have ex: "Execute (setError ws None) [] (requests env) =
      \<lparr>handler = setError (setError ws None) (Some e),
       changes = [\<lparr>State = svc_StartPending, Accepts = {}\<rparr>],
       returned = Some (True, 1)\<rparr>"
    by (rule Execute_onStart_error [OF st])
  have rec: "stopStartErr (setError (setError ws None) (Some e)) = Some e"
    by (simp add: setError_def)
  have run: "windowsService_Run env ws =
      \<lparr>service = setError (setError ws None) (Some e),
       reported = [\<lparr>State = svc_StartPending, Accepts = {}\<rparr>],
       exit_code = Some (True, 1),
       Run_returned = Some (Some e)\<rparr>"
    using assms(2) by (simp add: windowsService_Run_def svc_Run_def ex getError_def rec Let_def)
  have other: "\<And>ws' args' r' e'.
      Start ws' = None \<Longrightarrow> Stop ws' = Some (Some e') \<Longrightarrow>
      returned (Execute ws' args' r') \<noteq> None \<Longrightarrow>
      returned (Execute ws' args' r') \<noteq> Some (True, 1)"
  proof -
    fix ws' :: windowsService and args' r' e'
    assume "Start ws' = None" "Stop ws' = Some (Some e')" "returned (Execute ws' args' r') \<noteq> None"
    then have "returned (Execute ws' args' r') = Some (True, 2)"
      by (rule Execute_onStop_error_code)
    then show "returned (Execute ws' args' r') \<noteq> Some (True, 1)" by simp
  qed
  have neq: "\<forall>ws' args' r' e'.
      Start ws' = None \<and> Stop ws' = Some (Some e') \<and> returned (Execute ws' args' r') \<noteq> None
      \<longrightarrow> returned (Execute ws' args' r') \<noteq> Some (True, 1)"
    using other by blast
  have a: "Run_returned (windowsService_Run env ws) = Some (Some e)"
    by (simp add: run)
  have b: "reported (windowsService_Run env ws) = [\<lparr>State = svc_StartPending, Accepts = {}\<rparr>]"
    by (simp add: run)
  have c: "svc_Running \<notin> State ` set (reported (windowsService_Run env ws))"
    by (simp add: b)
  have d: "stopStartErr (service (windowsService_Run env ws)) = Some e"
    by (simp add: run rec)
  have ec: "exit_code (windowsService_Run env ws) = Some (True, 1)"
    by (simp add: run)
  have f: "\<forall>ws' args' r' e'.
      Start ws' = None \<and> Stop ws' = Some (Some e') \<and> returned (Execute ws' args' r') \<noteq> None
      \<longrightarrow> returned (Execute ws' args' r') \<noteq> exit_code (windowsService_Run env ws)"
    unfolding ec by (rule neq)
  from a b c d ec f show ?thesis by (intro conjI)
qed

theorem C5_onStart_error_witness:
  "Start demo_onStart_fails = Some ''start failed''
   \<and> dispatch_err interrogate_then_stop = None
   \<and> Run_returned (windowsService_Run interrogate_then_stop demo_onStart_fails)
       = Some (Some ''start failed'')
   \<and> reported (windowsService_Run interrogate_then_stop demo_onStart_fails)
       = [\<lparr>State = svc_StartPending, Accepts = {}\<rparr>]
   \<and> stopStartErr (service (windowsService_Run interrogate_then_stop demo_onStart_fails))
       = Some ''start failed''
   \<and> exit_code (windowsService_Run interrogate_then_stop demo_onStart_fails) = Some (True, 1)
   \<and> returned (Execute demo_onStop_fails [] (requests interrogate_then_stop))
       \<noteq> exit_code (windowsService_Run interrogate_then_stop demo_onStart_fails)"
proof -
  have h1: "Start demo_onStart_fails = Some ''start failed''"
    by (simp add: demo_onStart_fails_def windows_newService_def demo_def)
  have h2: "dispatch_err interrogate_then_stop = None"
    by (simp add: interrogate_then_stop_def)
  note t = C5_onStart_error [OF h1 h2]
  have s: "Start demo_onStop_fails = None \<and> Stop demo_onStop_fails = Some (Some ''stop failed'')
      \<and> returned (Execute demo_onStop_fails [] (requests interrogate_then_stop)) \<noteq> None"
    by (simp add: demo_onStop_fails_def windows_newService_def demo_def interrogate_then_stop_def
        Execute_def Execute_stop_def)
  from t have "returned (Execute demo_onStop_fails [] (requests interrogate_then_stop))
      \<noteq> exit_code (windowsService_Run interrogate_then_stop demo_onStart_fails)"
    using s by blast
  with t h1 h2 show ?thesis by blast
qed

text \<open>
  C6. When \<open>onStart\<close> succeeds, a stop or shutdown request is among the requests
  delivered and \<open>onStop\<close> returns an error \<open>e\<close>, the loop exits (\<open>Run\<close> returns), \<open>e\<close> is
  recorded in \<open>stopStartErr\<close>, the last status sent is \<open>StopPending\<close>, the exit code
  reported is the service-specific code 2, which differs from the code of every run whose
  \<open>onStart\<close> fails, and \<open>Run\<close> returns \<open>e\<close>, not nil, whatever \<open>svc.Run\<close> returned.
\<close>

theorem C6_onStop_error:
  assumes "Start ws = None" and "Stop ws = Some (Some e)" and "dispatch_err env = None"
    and "svc_Stop \<in> Cmd ` set (requests env) \<or> svc_Shutdown \<in> Cmd ` set (requests env)"
  shows "Run_returned (windowsService_Run env ws) = Some (Some e)
       \<and> stopStartErr (service (windowsService_Run env ws)) = Some e
       \<and> exit_code (windowsService_Run env ws) = Some (True, 2)
       \<and> take 2 (reported (windowsService_Run env ws)) =
           [\<lparr>State = svc_StartPending, Accepts = {}\<rparr>,
            \<lparr>State = svc_Running, Accepts = cmdsAccepted\<rparr>]
       \<and> last (reported (windowsService_Run env ws)) = \<lparr>State = svc_StopPending, Accepts = {}\<rparr>
       \<and> (\<forall>ws' args' r' e'.
             Start ws' = Some e'
             \<longrightarrow> returned (Execute ws' args' r') \<noteq> exit_code (windowsService_Run env ws))"
proof -
  let ?ws = "setError ws None"
  let ?ch = "[\<lparr>State = svc_StartPending, Accepts = {}\<rparr>,
              \<lparr>State = svc_Running, Accepts = cmdsAccepted\<rparr>]"
  let ?out = "Execute_loop ?ws (requests env) ?ch"
  have st: "Start ?ws = None" and sp: "Stop ?ws = Some (Some e)"
    using assms(1,2) by (simp_all add: setError_def)
  have ex: "Execute ?ws [] (requests env) = ?out"
    using st by (simp add: Execute_def)
  have r: "returned ?out = Some (True, 2)"
    by (rule Execute_loop_stop_returned [OF sp assms(4)])
  have h: "handler ?out = setError ?ws (Some e)"
    by (rule Execute_loop_stop_handler [OF sp assms(4)])
  have l: "last (changes ?out) = \<lparr>State = svc_StopPending, Accepts = {}\<rparr>"
    by (rule Execute_loop_stop_last [OF assms(4)])
  have p: "take 2 (changes ?out) = ?ch"
    using Execute_loop_changes_prefix [of ?ch ?ws "requests env"] by (simp add: numeral_2_eq_2)
  have rec: "stopStartErr (setError (setError ws None) (Some e)) = Some e"
    by (simp add: setError_def)
  have run: "windowsService_Run env ws =
      \<lparr>service = setError ?ws (Some e), reported = changes ?out,
       exit_code = Some (True, 2), Run_returned = Some (Some e)\<rparr>"
    using assms(3)
    by (simp add: windowsService_Run_def svc_Run_def ex r h getError_def rec Let_def)
  have other: "\<And>ws' args' r' e'. Start ws' = Some e' \<Longrightarrow>
      returned (Execute ws' args' r') \<noteq> Some (True, 2)"
    by (simp add: Execute_onStart_error)
  have neq: "\<forall>ws' args' r' e'. Start ws' = Some e'
      \<longrightarrow> returned (Execute ws' args' r') \<noteq> Some (True, 2)"
    using other by blast
  have a: "Run_returned (windowsService_Run env ws) = Some (Some e)"
    by (simp add: run)
  have b: "reported (windowsService_Run env ws) = changes ?out"
    by (simp add: run)
  have d: "stopStartErr (service (windowsService_Run env ws)) = Some e"
    by (simp add: run rec)
  have ec: "exit_code (windowsService_Run env ws) = Some (True, 2)"
    by (simp add: run)
  have f: "\<forall>ws' args' r' e'. Start ws' = Some e'
      \<longrightarrow> returned (Execute ws' args' r') \<noteq> exit_code (windowsService_Run env ws)"
    unfolding ec by (rule neq)
  from a d ec p l f show ?thesis unfolding b by (intro conjI)
qed

theorem C6_onStop_error_witness:
  "Start demo_onStop_fails = None
   \<and> Stop demo_onStop_fails = Some (Some ''stop failed'')
   \<and> dispatch_err interrogate_then_stop = None
   \<and> svc_Stop \<in> Cmd ` set (requests interrogate_then_stop)
   \<and> Run_returned (windowsService_Run interrogate_then_stop demo_onStop_fails)
       = Some (Some ''stop failed'')
   \<and> stopStartErr (service (windowsService_Run interrogate_then_stop demo_onStop_fails))
       = Some ''stop failed''
   \<and> exit_code (windowsService_Run interrogate_then_stop demo_onStop_fails) = Some (True, 2)
   \<and> returned (Execute demo_onStart_fails [] (requests interrogate_then_stop))
       \<noteq> exit_code (windowsService_Run interrogate_then_stop demo_onStop_fails)"
proof -
  have h1: "Start demo_onStop_fails = None"
    by (simp add: demo_onStop_fails_def windows_newService_def demo_def)
  have h2: "Stop demo_onStop_fails = Some (Some ''stop failed'')"
    by (simp add: demo_onStop_fails_def windows_newService_def demo_def)
  have h3: "dispatch_err interrogate_then_stop = None"
    by (simp add: interrogate_then_stop_def)
  have h4: "svc_Stop \<in> Cmd ` set (requests interrogate_then_stop)"
    by (simp add: interrogate_then_stop_def)
  then have h4': "svc_Stop \<in> Cmd ` set (requests interrogate_then_stop)
      \<or> svc_Shutdown \<in> Cmd ` set (requests interrogate_then_stop)" ..
  note t = C6_onStop_error [OF h1 h2 h3 h4']
  have s: "Start demo_onStart_fails = Some ''start failed''"
    by (simp add: demo_onStart_fails_def windows_newService_def demo_def)
  from t have "returned (Execute demo_onStart_fails [] (requests interrogate_then_stop))
      \<noteq> exit_code (windowsService_Run interrogate_then_stop demo_onStop_fails)"
    using s by blast
  with t h1 h2 h3 h4 show ?thesis by blast
qed

section \<open>Installing and updating on Windows\<close>

lemmas manager_calls =
  Connect_def Disconnect_def OpenService_def CreateService_def Service_Config_of_def
  UpdateConfig_def Service_Start_call_def Control_def Delete_def Close_def
  eventlog_Remove_call_def Sleep_def called_def

lemma InstallOrUpdate_creates:
  assumes "Connect_err env = None" and "services w (Name ws) = None"
    and "Executable env = Inr exepath" and "CreateService_err env = None"
    and "doStart_OpenService_err env = None"
  shows "windowsService_InstallOrUpdate env ws w =
    ((False, Start_err env),
     \<lparr>services = (services w)(Name ws \<mapsto>
        \<lparr>BinaryPathName = binPath exepath (Arguments ws), Cfg = fst (buildConfig ws)\<rparr>),
      calls = calls w @
        [mgr_Connect, Mgr_OpenService (Name ws),
         Mgr_CreateService (Name ws) (binPath exepath (Arguments ws)) (fst (buildConfig ws)),
         Mgr_OpenService (Name ws), Service_Start (Name ws) [],
         Service_Close (Name ws), Service_Close (Name ws), Mgr_Disconnect]\<rparr>)"
  using assms
  by (simp add: windowsService_InstallOrUpdate_def buildConfig_def existingSvcAndConfig_def
      InstallOrUpdate_create_def doStart_def manager_calls Let_def split: option.splits)

lemma InstallOrUpdate_existing_calls:
  assumes "OpenService_err env = None" and "services w (Name ws) = Some reg"
  shows "new_calls w (snd (windowsService_InstallOrUpdate env ws w)) \<in>
    {[mgr_Connect],
     [mgr_Connect, Mgr_OpenService (Name ws), Service_Config (Name ws), Mgr_Disconnect],
     [mgr_Connect, Mgr_OpenService (Name ws), Service_Config (Name ws),
      Service_UpdateConfig (Name ws) (fst (buildConfig ws)), Service_Close (Name ws),
      Mgr_Disconnect]}"
  using assms
  by (simp add: windowsService_InstallOrUpdate_def buildConfig_def existingSvcAndConfig_def
      InstallOrUpdate_update_def new_calls_def manager_calls Let_def split: option.splits)

lemma InstallOrUpdate_updates:
  assumes "OpenService_err env = None" and "services w (Name ws) = Some reg"
    and "Connect_err env = None" and "Config_err env = None"
    and "Cfg reg \<noteq> fst (buildConfig ws)" and "UpdateConfig_err env = None"
  shows "windowsService_InstallOrUpdate env ws w =
    ((True, None),
     \<lparr>services = (services w)(Name ws \<mapsto> reg\<lparr>Cfg := fst (buildConfig ws)\<rparr>),
      calls = calls w @
        [mgr_Connect, Mgr_OpenService (Name ws), Service_Config (Name ws),
         Service_UpdateConfig (Name ws) (fst (buildConfig ws)), Service_Close (Name ws),
         Mgr_Disconnect]\<rparr>)"
  using assms
  by (auto simp add: windowsService_InstallOrUpdate_def buildConfig_def existingSvcAndConfig_def
      InstallOrUpdate_update_def manager_calls Let_def split: option.splits)

text \<open>
  C10. On Windows, when no service of the name is registered and the manager carries out
  the calls, \<open>InstallOrUpdate\<close> creates the service and then opens it and issues a start
  command before it returns (the result is \<open>false\<close> with the error of the start
  command). When a service of the name is found, no start command and no creation is
  among the calls, whatever the manager answers; when its configuration differs and the
  update is carried out, only the configuration of the registration changes.
\<close>

theorem C10_create_starts_update_does_not:
  "(Connect_err env = None \<and> services w (Name ws) = None \<and> Executable env = Inr exepath
      \<and> CreateService_err env = None \<and> doStart_OpenService_err env = None
    \<longrightarrow> fst (windowsService_InstallOrUpdate env ws w) = (False, Start_err env)
      \<and> new_calls w (snd (windowsService_InstallOrUpdate env ws w)) =
          [mgr_Connect, Mgr_OpenService (Name ws),
           Mgr_CreateService (Name ws) (binPath exepath (Arguments ws)) (fst (buildConfig ws)),
           Mgr_OpenService (Name ws), Service_Start (Name ws) [],
           Service_Close (Name ws), Service_Close (Name ws), Mgr_Disconnect]
      \<and> services (snd (windowsService_InstallOrUpdate env ws w)) =
          (services w)(Name ws \<mapsto>
            \<lparr>BinaryPathName = binPath exepath (Arguments ws), Cfg = fst (buildConfig ws)\<rparr>))
   \<and> (OpenService_err env = None \<and> services w (Name ws) = Some reg
    \<longrightarrow> (\<forall>n args. Service_Start n args
            \<notin> set (new_calls w (snd (windowsService_InstallOrUpdate env ws w))))
      \<and> (\<forall>n b c. Mgr_CreateService n b c
            \<notin> set (new_calls w (snd (windowsService_InstallOrUpdate env ws w))))
      \<and> (Connect_err env = None \<and> Config_err env = None
            \<and> Cfg reg \<noteq> fst (buildConfig ws) \<and> UpdateConfig_err env = None
          \<longrightarrow> fst (windowsService_InstallOrUpdate env ws w) = (True, None)
            \<and> new_calls w (snd (windowsService_InstallOrUpdate env ws w)) =
                [mgr_Connect, Mgr_OpenService (Name ws), Service_Config (Name ws),
                 Service_UpdateConfig (Name ws) (fst (buildConfig ws)),
                 Service_Close (Name ws), Mgr_Disconnect]
            \<and> services (snd (windowsService_InstallOrUpdate env ws w)) =
                (services w)(Name ws \<mapsto> reg\<lparr>Cfg := fst (buildConfig ws)\<rparr>)))"
proof (intro conjI impI)
  assume a: "Connect_err env = None \<and> services w (Name ws) = None \<and> Executable env = Inr exepath
      \<and> CreateService_err env = None \<and> doStart_OpenService_err env = None"
  then have c: "windowsService_InstallOrUpdate env ws w =
    ((False, Start_err env),
     \<lparr>services = (services w)(Name ws \<mapsto>
        \<lparr>BinaryPathName = binPath exepath (Arguments ws), Cfg = fst (buildConfig ws)\<rparr>),
      calls = calls w @
        [mgr_Connect, Mgr_OpenService (Name ws),
         Mgr_CreateService (Name ws) (binPath exepath (Arguments ws)) (fst (buildConfig ws)),
         Mgr_OpenService (Name ws), Service_Start (Name ws) [],
         Service_Close (Name ws), Service_Close (Name ws), Mgr_Disconnect]\<rparr>)"
    by (simp add: InstallOrUpdate_creates)
  show "fst (windowsService_InstallOrUpdate env ws w) = (False, Start_err env)"
    by (simp add: c)
  show "new_calls w (snd (windowsService_InstallOrUpdate env ws w)) =
          [mgr_Connect, Mgr_OpenService (Name ws),
           Mgr_CreateService (Name ws) (binPath exepath (Arguments ws)) (fst (buildConfig ws)),
           Mgr_OpenService (Name ws), Service_Start (Name ws) [],
           Service_Close (Name ws), Service_Close (Name ws), Mgr_Disconnect]"
    by (simp add: c new_calls_def)
  show "services (snd (windowsService_InstallOrUpdate env ws w)) =
          (services w)(Name ws \<mapsto>
            \<lparr>BinaryPathName = binPath exepath (Arguments ws), Cfg = fst (buildConfig ws)\<rparr>)"
    by (simp add: c)
next
  assume b: "OpenService_err env = None \<and> services w (Name ws) = Some reg"
  then have k: "new_calls w (snd (windowsService_InstallOrUpdate env ws w)) \<in>
    {[mgr_Connect],
     [mgr_Connect, Mgr_OpenService (Name ws), Service_Config (Name ws), Mgr_Disconnect],
     [mgr_Connect, Mgr_OpenService (Name ws), Service_Config (Name ws),
      Service_UpdateConfig (Name ws) (fst (buildConfig ws)), Service_Close (Name ws),
      Mgr_Disconnect]}"
    using InstallOrUpdate_existing_calls [of env w ws reg] by blast
  show "\<forall>n args. Service_Start n args
      \<notin> set (new_calls w (snd (windowsService_InstallOrUpdate env ws w)))"
    using k by auto
  show "\<forall>n b c. Mgr_CreateService n b c
      \<notin> set (new_calls w (snd (windowsService_InstallOrUpdate env ws w)))"
    using k by auto
  assume u: "Connect_err env = None \<and> Config_err env = None
      \<and> Cfg reg \<noteq> fst (buildConfig ws) \<and> UpdateConfig_err env = None"
  have c: "windowsService_InstallOrUpdate env ws w =
    ((True, None),
     \<lparr>services = (services w)(Name ws \<mapsto> reg\<lparr>Cfg := fst (buildConfig ws)\<rparr>),
      calls = calls w @
        [mgr_Connect, Mgr_OpenService (Name ws), Service_Config (Name ws),
         Service_UpdateConfig (Name ws) (fst (buildConfig ws)), Service_Close (Name ws),
         Mgr_Disconnect]\<rparr>)"
    using b u by (simp add: InstallOrUpdate_updates)
  show "fst (windowsService_InstallOrUpdate env ws w) = (True, None)"
    by (simp add: c)
  show "new_calls w (snd (windowsService_InstallOrUpdate env ws w)) =
      [mgr_Connect, Mgr_OpenService (Name ws), Service_Config (Name ws),
       Service_UpdateConfig (Name ws) (fst (buildConfig ws)),
       Service_Close (Name ws), Mgr_Disconnect]"
    by (simp add: c new_calls_def)
  show "services (snd (windowsService_InstallOrUpdate env ws w)) =
      (services w)(Name ws \<mapsto> reg\<lparr>Cfg := fst (buildConfig ws)\<rparr>)"
    by (simp add: c)
qed

theorem C10_create_starts_update_does_not_witness:
  "Connect_err manager_ok = None \<and> services no_services (Name demo_windows) = None
   \<and> Executable manager_ok = Inr ''C:/demo.exe'' \<and> CreateService_err manager_ok = None
   \<and> doStart_OpenService_err manager_ok = None
   \<and> fst (windowsService_InstallOrUpdate manager_ok demo_windows no_services) = (False, None)
   \<and> Service_Start ''demo'' []
       \<in> set (new_calls no_services
                (snd (windowsService_InstallOrUpdate manager_ok demo_windows no_services)))
   \<and> services (snd (windowsService_InstallOrUpdate manager_ok demo_windows no_services)) ''demo''
       \<noteq> None
   \<and> OpenService_err manager_ok = None
   \<and> services demo_registered_old (Name demo_windows) \<noteq> None
   \<and> Service_Start ''demo'' []
       \<notin> set (new_calls demo_registered_old
                (snd (windowsService_InstallOrUpdate manager_ok demo_windows demo_registered_old)))
   \<and> fst (windowsService_InstallOrUpdate manager_ok demo_windows demo_registered_old)
       = (True, None)
   \<and> map_option Cfg
        (services (snd (windowsService_InstallOrUpdate manager_ok demo_windows demo_registered_old))
           ''demo'')
       = Some (fst (buildConfig demo_windows))"
proof -
  let ?reg = "\<lparr>BinaryPathName = [dquote] @ ''C:/demo.exe'' @ [dquote],
         Cfg = \<lparr>DisplayName = ''Demo'', Description = ''old'', StartType = 3,
                ServiceStartName = ''LocalSystem''\<rparr>\<rparr>"
  have n: "Name demo_windows = ''demo''"
    by (simp add: demo_windows_def windows_newService_def demo_def)
  have a: "Connect_err manager_ok = None \<and> services no_services (Name demo_windows) = None
      \<and> Executable manager_ok = Inr ''C:/demo.exe'' \<and> CreateService_err manager_ok = None
      \<and> doStart_OpenService_err manager_ok = None"
    by (simp add: manager_ok_def no_services_def)
  have s: "Start_err manager_ok = None"
    by (simp add: manager_ok_def)
  have b: "OpenService_err manager_ok = None
      \<and> services demo_registered_old (Name demo_windows) = Some ?reg"
    by (simp add: manager_ok_def demo_registered_old_def n)
  have u: "Connect_err manager_ok = None \<and> Config_err manager_ok = None
      \<and> Cfg ?reg \<noteq> fst (buildConfig demo_windows) \<and> UpdateConfig_err manager_ok = None"
    by (simp add: manager_ok_def buildConfig_def n)
  note t1 = C10_create_starts_update_does_not [where env = manager_ok and w = no_services
      and ws = demo_windows and exepath = "''C:/demo.exe''" and reg = ?reg]
  note t2 = C10_create_starts_update_does_not [where env = manager_ok
      and w = demo_registered_old and ws = demo_windows and exepath = "''C:/demo.exe''"
      and reg = ?reg]
  from t1 a have r1: "fst (windowsService_InstallOrUpdate manager_ok demo_windows no_services)
        = (False, Start_err manager_ok)"
    and r2: "new_calls no_services
          (snd (windowsService_InstallOrUpdate manager_ok demo_windows no_services)) =
          [mgr_Connect, Mgr_OpenService (Name demo_windows),
           Mgr_CreateService (Name demo_windows) (binPath ''C:/demo.exe'' (Arguments demo_windows))
             (fst (buildConfig demo_windows)),
           Mgr_OpenService (Name demo_windows), Service_Start (Name demo_windows) [],
           Service_Close (Name demo_windows), Service_Close (Name demo_windows), Mgr_Disconnect]"
    and r3: "services (snd (windowsService_InstallOrUpdate manager_ok demo_windows no_services)) =
          (services no_services)(Name demo_windows \<mapsto>
            \<lparr>BinaryPathName = binPath ''C:/demo.exe'' (Arguments demo_windows),
             Cfg = fst (buildConfig demo_windows)\<rparr>)"
    by blast+
  from t2 b u have r4: "\<forall>n args. Service_Start n args
            \<notin> set (new_calls demo_registered_old
                (snd (windowsService_InstallOrUpdate manager_ok demo_windows demo_registered_old)))"
    and r5: "fst (windowsService_InstallOrUpdate manager_ok demo_windows demo_registered_old)
        = (True, None)"
    and r6: "services
        (snd (windowsService_InstallOrUpdate manager_ok demo_windows demo_registered_old)) =
        (services demo_registered_old)(Name demo_windows \<mapsto>
           ?reg\<lparr>Cfg := fst (buildConfig demo_windows)\<rparr>)"
    by blast+
  have c1: "fst (windowsService_InstallOrUpdate manager_ok demo_windows no_services) = (False, None)"
    using r1 s by simp
  have c2: "Service_Start ''demo'' []
       \<in> set (new_calls no_services
                (snd (windowsService_InstallOrUpdate manager_ok demo_windows no_services)))"
    unfolding r2 n by simp
  have c3: "services (snd (windowsService_InstallOrUpdate manager_ok demo_windows no_services))
      ''demo'' \<noteq> None"
    unfolding r3 n by simp
  have c4: "Service_Start ''demo'' []
       \<notin> set (new_calls demo_registered_old
                (snd (windowsService_InstallOrUpdate manager_ok demo_windows demo_registered_old)))"
    using r4 by blast
  have c5: "map_option Cfg
        (services (snd (windowsService_InstallOrUpdate manager_ok demo_windows demo_registered_old))
           ''demo'')
       = Some (fst (buildConfig demo_windows))"
    unfolding r6 n by simp
  from a b c1 c2 c3 c4 r5 c5 show ?thesis by simp
qed

section \<open>Escaping of arguments\<close>

lemma strings_Replace_single:
  "strings_Replace s [c] new = concat (map (\<lambda>x. if x = c then new else [x]) s)"
proof (induction s)
  case Nil
  show ?case by (simp add: strings_Replace.simps)
next
  case (Cons x s)
  show ?case
    using Cons.IH by (subst strings_Replace.simps) simp
qed

lemma strings_Replace_single_append:
  "strings_Replace (a @ b) [c] new = strings_Replace a [c] new @ strings_Replace b [c] new"
  by (simp add: strings_Replace_single)

lemma html_append: "html (a @ b) = html a @ html b"
  by (simp add: html_def)

lemma dquote_notin_HTMLEscape_byte: "dquote \<notin> set (HTMLEscape_byte c)"
  by (simp add: HTMLEscape_byte_def htmlQuot_def dquote_def squote_def)

lemma dquote_notin_html: "dquote \<notin> set (html s)"
  by (simp add: html_def dquote_notin_HTMLEscape_byte)

lemma concat_map_member:
  "x \<in> set xs \<Longrightarrow> \<exists>pre post. concat (map f xs) = pre @ f x @ post"
proof -
  assume "x \<in> set xs"
  then obtain ys zs where "xs = ys @ x # zs" by (auto simp: in_set_conv_decomp)
  then have "concat (map f xs) = concat (map f ys) @ f x @ concat (map f zs)" by simp
  then show ?thesis by blast
qed

text \<open>
  On launchd every double quote of an argument becomes the character reference
  \<open>&#34;\<close>, the escaped argument holds no double quote, and it stands in the rendered
  descriptor between \<open><string>\<close> and \<open></string>\<close>.
\<close>

lemma html_dquote: "html (a @ [dquote] @ b) = html a @ ''&#34;'' @ html b"
  by (simp add: html_append) (simp add: html_def HTMLEscape_byte_def htmlQuot_def)

lemma launchdConfig_holds_argument:
  assumes "arg \<in> set (Arguments s)"
  shows "\<exists>pre post. launchdConfig s = pre @ ''<string>'' @ html arg @ ''</string>'' @ post"
proof -
  from assms obtain pre post where
    "launchdConfig_arguments (Arguments s) = pre @ launchdConfig_argument arg @ post"
    unfolding launchdConfig_arguments_def using concat_map_member by fastforce
  then have "launchdConfig s =
      (launchdConfig_head s @ pre @ [newline] @ ''        '')
      @ ''<string>'' @ html arg @ ''</string>'' @ ([newline] @ post @ launchdConfig_tail s)"
    by (simp add: launchdConfig_def launchdConfig_argument_def)
  then show ?thesis
    by blast
qed

text \<open>
  On Windows every argument stands in the command line between double quotes, with each
  of its double quotes replaced by backslash, double quote. For an argument without a
  backslash no raw double quote is left.
\<close>

lemma binPath_holds_argument:
  assumes "arg \<in> set args"
  shows "\<exists>pre post. binPath exepath args =
    pre @ [dquote] @ strings_Replace arg [dquote] [backslash, dquote] @ [dquote] @ post"
proof -
  from assms obtain pre post where
    "concat (map (\<lambda>arg. '' '' @ quoteArg arg) args) = pre @ ('' '' @ quoteArg arg) @ post"
    using concat_map_member [of arg args "\<lambda>arg. '' '' @ quoteArg arg"] by blast
  then have "binPath exepath args =
      ([dquote] @ exepath @ [dquote] @ pre @ '' '')
      @ [dquote] @ strings_Replace arg [dquote] [backslash, dquote] @ [dquote] @ post"
    by (simp add: binPath_def quoteArg_def)
  then show ?thesis
    by blast
qed

lemma strings_Replace_dquote:
  "strings_Replace (a @ [dquote] @ b) [dquote] [backslash, dquote] =
     strings_Replace a [dquote] [backslash, dquote] @ [backslash, dquote]
     @ strings_Replace b [dquote] [backslash, dquote]"
  by (simp add: strings_Replace_single)

lemma no_backslash_no_raw_quote:
  "backslash \<notin> set arg \<Longrightarrow>
   \<not> raw_quote (strings_Replace arg [dquote] [backslash, dquote])"
  unfolding raw_quote_def strings_Replace_single
  by (induction arg) (auto simp: dquote_def backslash_def)

section \<open>Failures of \<open>InstallOrUpdate\<close>\<close>

lemma prepareTmpFile_error:
  assumes "prepareTmpFile env s w = ((n, Some e), w1)"
  shows "n = [] \<and> effects w1 = effects w
    \<and> (\<forall>p. p \<noteq> TempFile_name env \<longrightarrow> fs w1 p = fs w p)"
  using assms
  by (auto simp: prepareTmpFile_def TempFile_def template_Execute_def File_Chmod_def
      split: option.splits)

lemma prepareTmpFile_ok:
  assumes "prepareTmpFile env s w = ((n, None), w1)"
  shows "n = TempFile_name env \<and> effects w1 = effects w
    \<and> fs w1 = (fs w)(TempFile_name env \<mapsto>
        \<lparr>content = launchdConfig s, mode = 420, uid = process_uid env, gid = process_gid env\<rparr>)"
  using assms
  by (auto simp: prepareTmpFile_def TempFile_def template_Execute_def File_Chmod_def
      split: option.splits)

lemma differsFromInstalled_world:
  assumes "differsFromInstalled env s n w = (r, w1)"
  shows "fs w1 = fs w
    \<and> (effects w1 = effects w \<or> effects w1 = effects w @ [time_Sleep_ms five_hours])"
  using assms
  by (auto simp: differsFromInstalled_def darwin_Sleep_def
      split: stat_result.splits sum.splits if_splits)

lemma differsFromInstalled_no_load:
  assumes "differsFromInstalled env s n w = (r, w1)"
  shows "launchctl_load s \<notin> set (new_effects w w1)"
  using differsFromInstalled_world [OF assms]
  by (auto simp: new_effects_def launchctl_load_def)

lemma deferred_Remove_other:
  "p \<noteq> n \<Longrightarrow> fs (deferred_Remove n w) p = fs w p"
  by (simp add: deferred_Remove_def os_Remove_def split: option.splits)


lemma prepareTmpFile_fresh:
  assumes "prepareTmpFile env s w = ((n, None), w1)"
  shows "fs w (TempFile_name env) = None"
  using assms
  by (auto simp: prepareTmpFile_def TempFile_def split: option.splits)






lemmas darwin_calls =
  prepareTmpFile_def TempFile_def template_Execute_def File_Chmod_def
  differsFromInstalled_def os_Stat_def ReadFile_def darwin_Sleep_def
  InstallOrUpdate_apply_def os_Rename_def os_Chown_def Cmd_Run_def
  deferred_Remove_def os_Remove_def






section \<open>Where the code departs from the specification\<close>

lemma demo_windows_fields:
  "Name demo_windows = ''demo''"
  "Arguments demo_windows = [''--flag'', ''va'' @ [dquote] @ ''lue'']"
  by (simp_all add: demo_windows_def windows_newService_def demo_def)

lemma demo_created:
  "windowsService_InstallOrUpdate manager_ok demo_windows no_services =
    ((False, None),
     \<lparr>services = [''demo'' \<mapsto>
        \<lparr>BinaryPathName = binPath ''C:/demo.exe'' (Arguments demo_windows),
         Cfg = fst (buildConfig demo_windows)\<rparr>],
      calls =
        [mgr_Connect, Mgr_OpenService ''demo'',
         Mgr_CreateService ''demo'' (binPath ''C:/demo.exe'' (Arguments demo_windows))
           (fst (buildConfig demo_windows)),
         Mgr_OpenService ''demo'', Service_Start ''demo'' [],
         Service_Close ''demo'', Service_Close ''demo'', Mgr_Disconnect]\<rparr>)"
proof -
  have "windowsService_InstallOrUpdate manager_ok demo_windows no_services =
    ((False, Start_err manager_ok),
     \<lparr>services = (services no_services)(Name demo_windows \<mapsto>
        \<lparr>BinaryPathName = binPath ''C:/demo.exe'' (Arguments demo_windows),
         Cfg = fst (buildConfig demo_windows)\<rparr>),
      calls = calls no_services @
        [mgr_Connect, Mgr_OpenService (Name demo_windows),
         Mgr_CreateService (Name demo_windows) (binPath ''C:/demo.exe'' (Arguments demo_windows))
           (fst (buildConfig demo_windows)),
         Mgr_OpenService (Name demo_windows), Service_Start (Name demo_windows) [],
         Service_Close (Name demo_windows), Service_Close (Name demo_windows),
         Mgr_Disconnect]\<rparr>)"
    by (rule InstallOrUpdate_creates) (simp_all add: manager_ok_def no_services_def)
  then show ?thesis
    by (simp add: demo_windows_fields(1)) (simp add: manager_ok_def no_services_def)
qed

text \<open>
  C1 fails on Windows: \<open>InstallOrUpdateRequired\<close> returns \<open>true\<close> before it looks at the
  manager, also right after \<open>InstallOrUpdate\<close> has created the service without error.
\<close>

theorem C1_windows_required_after_install:
  "windows_New demo = Inr demo_windows
   \<and> snd (fst (windowsService_InstallOrUpdate manager_ok demo_windows no_services)) = None
   \<and> fst (windowsService_InstallOrUpdateRequired manager_ok demo_windows
            (snd (windowsService_InstallOrUpdate manager_ok demo_windows no_services)))
       = (True, None)"
  by (simp add: demo_created windowsService_InstallOrUpdateRequired_def)
     (simp add: windows_New_def demo_windows_def demo_def)

text \<open>
  C2 fails on Windows: \<open>InstallOrUpdate\<close> creates and starts a service that was not
  registered and returns \<open>false\<close> with no error.
\<close>

theorem C2_windows_create_returns_false:
  "services no_services ''demo'' = None
   \<and> fst (windowsService_InstallOrUpdate manager_ok demo_windows no_services) = (False, None)
   \<and> services (snd (windowsService_InstallOrUpdate manager_ok demo_windows no_services)) ''demo''
       = Some \<lparr>BinaryPathName = binPath ''C:/demo.exe'' (Arguments demo_windows),
               Cfg = fst (buildConfig demo_windows)\<rparr>"
  by (simp add: demo_created) (simp add: no_services_def)

lemma demo_backslash_quote_fields:
  "Name demo_backslash_quote = ''demo''"
  "Arguments demo_backslash_quote = [''a'' @ [backslash, dquote] @ ''b'']"
  by (simp_all add: demo_backslash_quote_def windows_newService_def demo_def)

text \<open>
  C7 fails on Windows: a double quote that follows a backslash in the argument is
  rendered as backslash, backslash, double quote. The added backslash is taken by the one
  before it, so the double quote follows an even number of backslashes and is raw: it
  ends the quoted argument instead of standing in it. The launchd descriptor renders the
  same argument with \<open>&#34;\<close>.
\<close>

theorem C7_windows_backslash_quote_raw:
  "Arguments demo_backslash_quote = [''a'' @ [backslash, dquote] @ ''b'']
   \<and> snd (fst (windowsService_InstallOrUpdate manager_ok demo_backslash_quote no_services))
       = None
   \<and> map_option BinaryPathName
        (services (snd (windowsService_InstallOrUpdate manager_ok demo_backslash_quote no_services))
           ''demo'')
       = Some ([dquote] @ ''C:/demo.exe'' @ [dquote] @ '' ''
               @ [dquote] @ ''a'' @ [backslash, backslash, dquote] @ ''b'' @ [dquote])
   \<and> strings_Replace (''a'' @ [backslash, dquote] @ ''b'') [dquote] [backslash, dquote]
       = ''a'' @ [backslash, backslash, dquote] @ ''b''
   \<and> raw_quote (''a'' @ [backslash, backslash, dquote] @ ''b'')
   \<and> html (''a'' @ [backslash, dquote] @ ''b'') = ''a'' @ [backslash] @ ''&#34;b''"
proof -
  have run: "windowsService_InstallOrUpdate manager_ok demo_backslash_quote no_services =
    ((False, Start_err manager_ok),
     \<lparr>services = (services no_services)(Name demo_backslash_quote \<mapsto>
        \<lparr>BinaryPathName = binPath ''C:/demo.exe'' (Arguments demo_backslash_quote),
         Cfg = fst (buildConfig demo_backslash_quote)\<rparr>),
      calls = calls no_services @
        [mgr_Connect, Mgr_OpenService (Name demo_backslash_quote),
         Mgr_CreateService (Name demo_backslash_quote)
           (binPath ''C:/demo.exe'' (Arguments demo_backslash_quote))
           (fst (buildConfig demo_backslash_quote)),
         Mgr_OpenService (Name demo_backslash_quote), Service_Start (Name demo_backslash_quote) [],
         Service_Close (Name demo_backslash_quote), Service_Close (Name demo_backslash_quote),
         Mgr_Disconnect]\<rparr>)"
    by (rule InstallOrUpdate_creates)
       (simp_all add: manager_ok_def no_services_def)
  have rp: "strings_Replace (''a'' @ [backslash, dquote] @ ''b'') [dquote] [backslash, dquote]
       = ''a'' @ [backslash, backslash, dquote] @ ''b''"
    unfolding strings_Replace_single by (simp add: dquote_def backslash_def)
  have bp: "binPath ''C:/demo.exe'' (Arguments demo_backslash_quote) =
      [dquote] @ ''C:/demo.exe'' @ [dquote] @ '' ''
      @ [dquote] @ ''a'' @ [backslash, backslash, dquote] @ ''b'' @ [dquote]"
    using rp by (simp add: demo_backslash_quote_fields(2) binPath_def quoteArg_def)
  have rq: "raw_quote (''a'' @ [backslash, backslash, dquote] @ ''b'')"
    by (simp add: raw_quote_def dquote_def backslash_def)
  have ht: "html (''a'' @ [backslash, dquote] @ ''b'') = ''a'' @ [backslash] @ ''&#34;b''"
    by (simp add: html_def HTMLEscape_byte_def htmlQuot_def dquote_def backslash_def squote_def)
  have a: "snd (fst (windowsService_InstallOrUpdate manager_ok demo_backslash_quote no_services))
      = None"
    by (simp add: run) (simp add: manager_ok_def)
  have b: "map_option BinaryPathName
        (services (snd (windowsService_InstallOrUpdate manager_ok demo_backslash_quote no_services))
           ''demo'')
       = Some ([dquote] @ ''C:/demo.exe'' @ [dquote] @ '' ''
               @ [dquote] @ ''a'' @ [backslash, backslash, dquote] @ ''b'' @ [dquote])"
    by (simp add: run demo_backslash_quote_fields(1) bp)
  from demo_backslash_quote_fields(2) a b rp rq ht show ?thesis
    by (intro conjI)
qed

text \<open>
  C4 fails on Windows: \<open>Start\<close> connects to the manager, disconnects and returns nil; no
  start command is issued for the registered service. \<open>Restart\<close> stops the service, sleeps
  50 milliseconds and then calls that \<open>Start\<close>.
\<close>

theorem C4_windows_Start_issues_nothing:
  "services demo_registered_old ''demo'' \<noteq> None
   \<and> fst (windowsService_Start manager_ok demo_windows demo_registered_old) = None
   \<and> new_calls demo_registered_old
        (snd (windowsService_Start manager_ok demo_windows demo_registered_old))
       = [mgr_Connect, Mgr_Disconnect]
   \<and> new_calls demo_registered_old
        (snd (windowsService_Restart manager_ok manager_ok demo_windows demo_registered_old))
       = [mgr_Connect, Mgr_OpenService ''demo'', Service_Control ''demo'' svc_Stop,
          Service_Close ''demo'', Mgr_Disconnect, time_Sleep 50, mgr_Connect, Mgr_Disconnect]"
  by (simp add: windowsService_Start_def windowsService_Restart_def windowsService_Stop_def
      manager_calls new_calls_def demo_windows_fields(1) manager_ok_def demo_registered_old_def)

lemma demo_darwin_path: "serviceFilePath demo_darwin = ''/Library/LaunchDaemons/demo.plist''"
  by (simp add: demo_darwin_def)

lemma demo_installed:
  "darwin_InstallOrUpdate system_ok demo_darwin nothing_installed =
     ((True, None),
      \<lparr>fs = [''/Library/LaunchDaemons/demo.plist'' \<mapsto>
               \<lparr>content = launchdConfig demo_darwin, mode = 420, uid = 0, gid = 0\<rparr>],
       effects = [launchctl_load demo_darwin]\<rparr>)"
  by (simp add: darwin_InstallOrUpdate_def darwin_calls system_ok_def nothing_installed_def
      demo_darwin_path launchctl_load_def)

lemma demo_installed_again:
  "darwin_InstallOrUpdate system_ok demo_darwin
     \<lparr>fs = [''/Library/LaunchDaemons/demo.plist'' \<mapsto>
               \<lparr>content = launchdConfig demo_darwin, mode = 420, uid = 0, gid = 0\<rparr>],
       effects = [launchctl_load demo_darwin]\<rparr> =
     ((True, None),
      \<lparr>fs = [''/Library/LaunchDaemons/demo.plist'' \<mapsto>
               \<lparr>content = launchdConfig demo_darwin, mode = 420, uid = 0, gid = 0\<rparr>],
       effects = [launchctl_load demo_darwin, launchctl_load demo_darwin]\<rparr>)"
  by (simp add: darwin_InstallOrUpdate_def darwin_calls system_ok_def
      demo_darwin_path launchctl_load_def fun_upd_twist)

text \<open>
  On launchd, \<open>InstallOrUpdate\<close> does not look at the result of the comparison. With the rendered descriptor already installed it renames,
  changes the owner and loads again, and returns \<open>true\<close>.
\<close>

lemma darwin_InstallOrUpdate_matching_returns_true:
  "installed demo_darwin (snd (darwin_InstallOrUpdate system_ok demo_darwin nothing_installed))
     = Some (launchdConfig demo_darwin)
   \<and> fst (darwin_InstallOrUpdate system_ok demo_darwin
            (snd (darwin_InstallOrUpdate system_ok demo_darwin nothing_installed)))
       = (True, None)"
  by (simp add: demo_installed demo_installed_again installed_def demo_darwin_path)

text \<open>
  C8 fails on launchd: for a service that was never installed, \<open>Uninstall\<close> returns the
  wrapped failure of \<open>launchctl unload\<close> or, when that command succeeds, the error of
  \<open>os.Remove\<close>; neither says that the service is not installed. On Windows the error is
  \<open>service demo is not installed\<close>.
\<close>

theorem C8_darwin_Uninstall_generic_error:
  "fs nothing_installed (serviceFilePath demo_darwin) = None
   \<and> fst (darwin_Uninstall unload_fails demo_darwin nothing_installed)
       = Some ''Unable to unload service prior to uninstalling: exit status 1''
   \<and> fst (darwin_Uninstall system_ok demo_darwin nothing_installed)
       = Some ''remove /Library/LaunchDaemons/demo.plist: no such file or directory''
   \<and> fst (windowsService_Uninstall manager_ok demo_windows no_services)
       = Some ''service demo is not installed''"
  by (simp add: darwin_Uninstall_def Cmd_Run_def os_Remove_def unload_fails_def system_ok_def
      nothing_installed_def demo_darwin_path windowsService_Uninstall_def manager_calls
      manager_ok_def no_services_def demo_windows_fields(1))

text \<open>
  C9 fails: when the execution of the template fails, \<open>prepareTmpFile\<close> returns the empty
  name, the callers register no removal, and the temporary file stays.
\<close>

theorem C9_template_failure_leaves_tmp_file:
  "fs nothing_installed (TempFile_name template_fails) = None
   \<and> snd (fst (darwin_InstallOrUpdateRequired template_fails demo_darwin nothing_installed))
       = Some ''Unable to process service configuration template: no space left on device''
   \<and> fs (snd (darwin_InstallOrUpdateRequired template_fails demo_darwin nothing_installed))
        (TempFile_name template_fails)
       = Some \<lparr>content = take 10 (launchdConfig demo_darwin), mode = 384, uid = 501, gid = 20\<rparr>
   \<and> snd (fst (darwin_InstallOrUpdate template_fails demo_darwin nothing_installed))
       = Some ''Unable to process service configuration template: no space left on device''
   \<and> fs (snd (darwin_InstallOrUpdate template_fails demo_darwin nothing_installed))
        (TempFile_name template_fails)
       = Some \<lparr>content = take 10 (launchdConfig demo_darwin), mode = 384, uid = 501, gid = 20\<rparr>"
  by (simp add: darwin_InstallOrUpdateRequired_def darwin_InstallOrUpdate_def darwin_calls
      template_fails_def system_ok_def nothing_installed_def)

text \<open>What the sibling paths do: \<open>Start\<close> and \<open>Restart\<close> on launchd, and a failing \<open>Stop\<close>.\<close>

lemma darwin_Start_issues_start:
  "launchctl_start_err env = None \<Longrightarrow>
   darwin_Start env s w =
     (None, w\<lparr>effects := effects w @ [commandAsRoot [''launchctl'', ''start'', Name s]]\<rparr>)"
  by (simp add: darwin_Start_def Cmd_Run_def)

lemma darwin_Restart_effects:
  "launchctl_stop_err env = None \<Longrightarrow> launchctl_start_err env = None \<Longrightarrow>
   new_effects w (snd (darwin_Restart env s w)) =
     [commandAsRoot [''launchctl'', ''stop'', Name s], time_Sleep_ms 50,
      commandAsRoot [''launchctl'', ''start'', Name s]]"
  by (simp add: darwin_Restart_def darwin_Stop_def darwin_Start_def Cmd_Run_def
      darwin_Sleep_def new_effects_def)

lemma darwin_Restart_Stop_error:
  "launchctl_stop_err env \<noteq> None \<Longrightarrow>
   fst (darwin_Restart env s w) \<noteq> None
   \<and> commandAsRoot [''launchctl'', ''start'', Name s]
       \<notin> set (new_effects w (snd (darwin_Restart env s w)))"
  by (auto simp: darwin_Restart_def darwin_Stop_def Cmd_Run_def new_effects_def
      split: option.splits run_error.splits)

lemma windowsService_Restart_Stop_error:
  "fst (windowsService_Stop env1 ws w) = Some err \<Longrightarrow>
   windowsService_Restart env1 env2 ws w = windowsService_Stop env1 ws w"
  by (cases "windowsService_Stop env1 ws w") (simp add: windowsService_Restart_def)

lemma windowsService_InstallOrUpdateRequired_always:
  "windowsService_InstallOrUpdateRequired env ws w = ((True, None), w)"
  by (simp add: windowsService_InstallOrUpdateRequired_def)

text \<open>
  On launchd, with the rendered descriptor installed and a system on which the calls of
  the comparison succeed, \<open>InstallOrUpdateRequired\<close> returns \<open>false\<close> and leaves the
  files as they were.
\<close>

lemma darwin_InstallOrUpdateRequired_installed:
  assumes "fs w (serviceFilePath s) = Some f" and "content f = launchdConfig s"
    and "TempFile_err env = None" and "template_Execute_err env = None"
    and "Chmod_err env = None" and "Close_err env = None" and "Stat_err env = None"
    and "ReadFile_old_err env = None" and "ReadFile_new_err env = None"
    and "fs w (TempFile_name env) = None" and "TempFile_name env \<noteq> []"
  shows "darwin_InstallOrUpdateRequired env s w = ((False, None), w)"
proof -
  have ne: "TempFile_name env \<noteq> serviceFilePath s"
    using assms(1,10) by auto
  have m: "(fs w)(TempFile_name env := None) = fs w"
    using assms(10) by (auto simp: fun_eq_iff)
  show ?thesis
    using assms ne
    by (simp add: darwin_InstallOrUpdateRequired_def darwin_calls m)
qed

lemma darwin_InstallOrUpdate_success:
  assumes "fst (darwin_InstallOrUpdate env s w) = (True, None)"
    and "TempFile_name env \<noteq> serviceFilePath s"
  shows "fs (snd (darwin_InstallOrUpdate env s w)) (serviceFilePath s) =
      Some \<lparr>content = launchdConfig s, mode = 420, uid = 0, gid = 0\<rparr>
    \<and> (\<forall>p. p \<noteq> serviceFilePath s \<longrightarrow>
          fs (snd (darwin_InstallOrUpdate env s w)) p = fs w p)"
proof -
  obtain n eo w1 where p: "prepareTmpFile env s w = ((n, eo), w1)"
    by (metis surj_pair)
  show ?thesis
  proof (cases eo)
    case (Some err)
    with p assms(1) show ?thesis
      by (simp add: darwin_InstallOrUpdate_def)
  next
    case None
    let ?f = "\<lparr>content = launchdConfig s, mode = 420,
               uid = process_uid env, gid = process_gid env\<rparr>"
    from p None have q: "n = TempFile_name env \<and> effects w1 = effects w
        \<and> fs w1 = (fs w)(TempFile_name env \<mapsto> ?f)"
      using prepareTmpFile_ok by blast
    from p None have free: "fs w (TempFile_name env) = None"
      by (auto simp: prepareTmpFile_def TempFile_def split: option.splits)
    obtain r w2 where d: "differsFromInstalled env s n w1 = (r, w2)"
      by (cases "differsFromInstalled env s n w1")
    from differsFromInstalled_world [OF d] have w2: "fs w2 = fs w1"
      by simp
    show ?thesis
      using assms p None q d w2 free
      by (auto simp: darwin_InstallOrUpdate_def InstallOrUpdate_apply_def os_Rename_def
          os_Chown_def Cmd_Run_def deferred_Remove_def os_Remove_def
          split: option.splits prod.splits if_splits run_error.splits)
  qed
qed

section \<open>Further facts about the operations\<close>

lemma demo_darwin_New: "darwin_New (Inr ''/usr/bin/demo'') demo = Inr demo_darwin"
  by (simp add: darwin_New_def darwin_newService_def demo_def demo_darwin_def)

text \<open>\<open>Uninstall\<close> of a service that is not registered, on both backends.\<close>

lemma windowsService_Uninstall_not_installed:
  assumes "Connect_err env = None" and "services w (Name ws) = None"
  shows "fst (windowsService_Uninstall env ws w) = Some (''service '' @ Name ws @ '' is not installed'')"
    and "services (snd (windowsService_Uninstall env ws w)) = services w"
  using assms
  by (simp_all add: windowsService_Uninstall_def manager_calls Let_def split: option.splits)

lemma darwin_Uninstall_not_installed:
  assumes "fs w (serviceFilePath s) = None"
  shows "fst (darwin_Uninstall env s w) =
     (case launchctl_unload_err env of
        Some (not_started err) \<Rightarrow>
          Some (''Unable to unload service prior to uninstalling: '' @ err)
      | Some (exited err) \<Rightarrow>
          Some (''Unable to unload service prior to uninstalling: '' @ err)
      | None \<Rightarrow> Some (''remove '' @ serviceFilePath s @ '': no such file or directory''))"
  using assms
  by (simp add: darwin_Uninstall_def Cmd_Run_def os_Remove_def
      split: option.splits run_error.splits)

text \<open>
  The temporary file: it is gone after both operations once \<open>prepareTmpFile\<close> has
  succeeded, and it stays when a step of \<open>prepareTmpFile\<close> fails after the file was
  created.
\<close>

lemma differsFromInstalled_fs:
  "fs (snd (differsFromInstalled env s n w)) = fs w"
  using differsFromInstalled_world [of env s n w]
  by (cases "differsFromInstalled env s n w") simp

lemma tmp_file_removed_after_prepare:
  assumes p: "prepareTmpFile env s w = ((n, None), w1)"
    and ne: "TempFile_name env \<noteq> []" and np: "TempFile_name env \<noteq> serviceFilePath s"
  shows "fs (snd (darwin_InstallOrUpdateRequired env s w)) (TempFile_name env) = None"
    and "fs (snd (darwin_InstallOrUpdate env s w)) (TempFile_name env) = None"
proof -
  from prepareTmpFile_ok [OF p] have n: "n = TempFile_name env"
    by simp
  have rm: "fs (deferred_Remove n x) n = None" for x
    using n ne by (simp add: deferred_Remove_def os_Remove_def split: option.splits)
  show "fs (snd (darwin_InstallOrUpdateRequired env s w)) (TempFile_name env) = None"
    using p rm n by (simp add: darwin_InstallOrUpdateRequired_def split: prod.splits)
  show "fs (snd (darwin_InstallOrUpdate env s w)) (TempFile_name env) = None"
    using p rm n by (simp add: darwin_InstallOrUpdate_def split: prod.splits)
qed

lemma tmp_file_left_after_failed_prepare:
  assumes "TempFile_err env = None" and "fs w (TempFile_name env) = None"
    and "template_Execute_err env \<noteq> None \<or> Chmod_err env \<noteq> None \<or> Close_err env \<noteq> None"
  shows "fs (snd (darwin_InstallOrUpdateRequired env s w)) (TempFile_name env) \<noteq> None"
    and "fs (snd (darwin_InstallOrUpdate env s w)) (TempFile_name env) \<noteq> None"
  using assms
  by (auto simp: darwin_InstallOrUpdateRequired_def darwin_InstallOrUpdate_def
      prepareTmpFile_def TempFile_def template_Execute_def File_Chmod_def deferred_Remove_def
      split: option.splits)

text \<open>\<open>InstallOrUpdateRequired\<close> on launchd leaves the installed descriptor as it is.\<close>

lemma darwin_InstallOrUpdateRequired_read_only:
  assumes "TempFile_name env \<noteq> serviceFilePath s"
  shows "fs (snd (darwin_InstallOrUpdateRequired env s w)) (serviceFilePath s)
    = fs w (serviceFilePath s)"
proof -
  obtain n eo w1 where p: "prepareTmpFile env s w = ((n, eo), w1)"
    by (metis surj_pair)
  have k: "fs w1 (serviceFilePath s) = fs w (serviceFilePath s)"
  proof (cases eo)
    case None
    with p prepareTmpFile_ok [of env s w n w1] assms show ?thesis by simp
  next
    case (Some e)
    with p prepareTmpFile_error [of env s w n e w1] assms show ?thesis by metis
  qed
  have nn: "eo = None \<Longrightarrow> serviceFilePath s \<noteq> n"
    using p prepareTmpFile_ok [of env s w n w1] assms by auto
  have ee: "eo \<noteq> None \<Longrightarrow> n = []"
    using p prepareTmpFile_error [of env s w n _ w1] by auto
  show ?thesis
  proof (cases eo)
    case None
    then show ?thesis
      using p k nn
      by (simp add: darwin_InstallOrUpdateRequired_def deferred_Remove_other
          differsFromInstalled_fs split: prod.splits)
         (metis deferred_Remove_other differsFromInstalled_fs snd_conv)
  next
    case (Some e)
    then show ?thesis
      using p k ee by (simp add: darwin_InstallOrUpdateRequired_def deferred_Remove_def)
  qed
qed

end
